theory Spec2Isabelle
  imports Complex_Main
begin

section \<open>pynbp: the Numeric Broadcast Protocol broadcaster\<close>

text \<open>
  A shallow embedding of \<^verbatim>\<open>src/pynbp/__init__.py\<close>: the packet encoder
  \<^verbatim>\<open>BasePyNBP._genpacket\<close>, the merge of a dequeued payload into the
  broadcaster's state, and the loop bodies of \<^verbatim>\<open>PyNBP.run\<close> (serial) and
  \<^verbatim>\<open>WifiPyNBP.run\<close> (socket).

  Conventions.
  \<^item> A Python \<^verbatim>\<open>str\<close> is a \<^typ>\<open>string\<close> holding the bytes of its UTF-8
    encoding, so \<^verbatim>\<open>str.encode\<close> keeps the list as it is.
  \<^item> Python's formatting, decoding and trimming built-ins are not code of the
    repository; they are parameters of the model (record \<open>builtins\<close>).
  \<^item> The clock (\<^verbatim>\<open>time.time()\<close>), \<^verbatim>\<open>last_update_time\<close> and
    \<^verbatim>\<open>min_update_interval\<close> are rationals: the gate is the comparison of the
    source, on exact numbers instead of floats.
  \<^item> Every call of the transport (open, accept, read, write) has its outcome
    given by an input record, one per loop iteration; every call of the logger
    and every write is appended to a trace.
\<close>

subsection \<open>Data\<close>

text \<open>The two named tuples of the module.\<close>

datatype 'v NbpKPI = NbpKPI (name: string) (unit: string) (kpi_value: 'v)

datatype ('t, 'v) NbpPayload =
  NbpPayload (timestamp: 't) (packettype: string) (nbpkpilist: "'v NbpKPI list")

text \<open>
  The exceptions that occur in the module or come out of the transport. In pyserial
  \<^verbatim>\<open>SerialTimeoutException\<close> is a subclass of \<^verbatim>\<open>SerialException\<close>; an
  \<^verbatim>\<open>except\<close> clause is a class, and \<open>catches\<close> is \<^verbatim>\<open>isinstance\<close>.
\<close>

datatype exn =
    ValueError string
  | KeyError string
  | AttributeError string
  | UnicodeDecodeError
  | SerialException
  | SerialTimeoutException
  | socket_timeout
  | BlockingIOError
  | ConnectionResetError
  | BrokenPipeError
  | OSError

datatype exn_class =
    Any_Exception
  | Class_SerialException
  | Class_SerialTimeoutException
  | Class_socket_timeout
  | Class_BlockingIOError

fun catches :: "exn_class \<Rightarrow> exn \<Rightarrow> bool" where
  "catches Any_Exception e = True"
| "catches Class_SerialException e = (e = SerialException \<or> e = SerialTimeoutException)"
| "catches Class_SerialTimeoutException e = (e = SerialTimeoutException)"
| "catches Class_socket_timeout e = (e = socket_timeout)"
| "catches Class_BlockingIOError e = (e = BlockingIOError)"

text \<open>
  The built-ins of Python the module calls: \<^verbatim>\<open>"{:.6f}".format(x)\<close>,
  \<^verbatim>\<open>"{}".format(x)\<close>, \<^verbatim>\<open>bytes.decode()\<close> and \<^verbatim>\<open>str.strip()\<close>.
\<close>

record ('t, 'v) builtins =
  format_6f :: "'t \<Rightarrow> string"
  format_plain :: "'v \<Rightarrow> string"
  bytes_decode :: "string \<Rightarrow> exn + string"
  str_strip :: "string \<Rightarrow> string"

text \<open>
  The fields \<^verbatim>\<open>BasePyNBP.__init__\<close> sets. \<^verbatim>\<open>self.kpis\<close> is a dict, which
  keeps its keys in insertion order: an association list with distinct keys.
  The queue is not a field here: the payloads it delivers are the input of the loop.
\<close>

record ('t, 'v) BasePyNBP =
  device_name :: string
  protocol_version :: string
  last_update_time :: rat
  packettime :: 't
  kpis :: "(string \<times> 'v NbpKPI) list"
  updatelist :: "string list"
  min_update_interval :: rat

definition BasePyNBP_init :: "string \<Rightarrow> string \<Rightarrow> rat \<Rightarrow> ('t::zero, 'v) BasePyNBP" where
  "BasePyNBP_init dn pv mui =
     \<lparr>device_name = dn, protocol_version = pv, last_update_time = 0, packettime = 0,
      kpis = [], updatelist = [], min_update_interval = mui\<rparr>"

text \<open>The defaults of the constructor's keyword arguments.\<close>

definition BasePyNBP_default :: "('t::zero, 'v) BasePyNBP" where
  "BasePyNBP_default = BasePyNBP_init ''PyNBP'' ''NBP1'' 0.2"

subsection \<open>The dict\<close>

text \<open>\<^verbatim>\<open>d[k] = v\<close>: an existing key keeps its place, a new key goes to the end.\<close>

fun dict_setitem :: "('k \<times> 'a) list \<Rightarrow> 'k \<Rightarrow> 'a \<Rightarrow> ('k \<times> 'a) list" where
  "dict_setitem [] k v = [(k, v)]"
| "dict_setitem ((k', v') # d) k v =
     (if k' = k then (k, v) # d else (k', v') # dict_setitem d k v)"

text \<open>\<^verbatim>\<open>d[k]\<close> raises \<^verbatim>\<open>KeyError\<close> on a missing key.\<close>

definition dict_getitem :: "(string \<times> 'a) list \<Rightarrow> string \<Rightarrow> exn + 'a" where
  "dict_getitem d k = (case map_of d k of None \<Rightarrow> Inl (KeyError k) | Some v \<Rightarrow> Inr v)"

definition dict_values :: "('k \<times> 'a) list \<Rightarrow> 'a list" where
  "dict_values d = map snd d"

text \<open>The comprehension \<^verbatim>\<open>[self.kpis[k] for k in self.updatelist]\<close>.\<close>

fun getitems :: "(string \<times> 'a) list \<Rightarrow> string list \<Rightarrow> exn + 'a list" where
  "getitems d [] = Inr []"
| "getitems d (k # ks) =
     (case dict_getitem d k of
        Inl e \<Rightarrow> Inl e
      | Inr v \<Rightarrow> (case getitems d ks of Inl e \<Rightarrow> Inl e | Inr vs \<Rightarrow> Inr (v # vs)))"

subsection \<open>The packet encoder\<close>

definition str_encode :: "string \<Rightarrow> string" where
  "str_encode s = s"

definition metadata :: "('t, 'v) BasePyNBP \<Rightarrow> string" where
  "metadata self = str_encode (''@NAME:'' @ device_name self @ ''\<newline>\<newline>'')"

text \<open>The loop \<^verbatim>\<open>for kpi in kpis\<close> of \<^verbatim>\<open>_genpacket\<close>, which appends to \<^verbatim>\<open>packet\<close>.\<close>

fun genlines :: "('v \<Rightarrow> string) \<Rightarrow> string \<Rightarrow> 'v NbpKPI list \<Rightarrow> string" where
  \<open>genlines fmt packet [] = packet\<close>
| \<open>genlines fmt packet (kpi # rest) =
     genlines fmt
       (if unit kpi \<noteq> []
        then packet @ ''"'' @ name kpi @ ''","'' @ unit kpi @ ''":'' @ fmt (kpi_value kpi) @ ''\<newline>''
        else packet @ ''"'' @ name kpi @ ''":'' @ fmt (kpi_value kpi) @ ''\<newline>'')
       rest\<close>

definition genpacket ::
  "('t, 'v) builtins \<Rightarrow> ('t, 'v) BasePyNBP \<Rightarrow> string \<Rightarrow> exn + string" where
  "genpacket py self ptype =
     (if ptype \<notin> set [''ALL'', ''UPDATE'', ''METADATA'']
      then Inl (ValueError (''Unrecognize ptype: '' @ ptype))
      else if ptype = ''METADATA'' then Inr (metadata self)
      else
        let packet = ''*'' @ protocol_version self @ '','' @ ptype @ '','' @
                     format_6f py (packettime self) @ ''\<newline>''
        in case (if updatelist self \<noteq> [] \<and> ptype \<noteq> ''ALL''
                 then getitems (kpis self) (updatelist self)
                 else Inr (dict_values (kpis self))) of
             Inl e \<Rightarrow> Inl e
           | Inr ks \<Rightarrow>
               Inr (str_encode (genlines (format_plain py) packet ks @ ''#\<newline>\<newline>'')))"

subsection \<open>Merging a payload\<close>

text \<open>
  Lines 106 to 111 of \<^verbatim>\<open>PyNBP.run\<close>, repeated as lines 170 to 175 of
  \<^verbatim>\<open>WifiPyNBP.run\<close>: the loop over \<^verbatim>\<open>nbppayload.nbpkpilist\<close>, then the whole
  step with the assignment of \<^verbatim>\<open>packettime\<close> before it.
\<close>

fun merge_kpis :: "('t, 'v) BasePyNBP \<Rightarrow> 'v NbpKPI list \<Rightarrow> ('t, 'v) BasePyNBP" where
  "merge_kpis self [] = self"
| "merge_kpis self (kpi # rest) =
     merge_kpis
       (self\<lparr>updatelist :=
                (if name kpi \<notin> set (updatelist self)
                 then updatelist self @ [name kpi] else updatelist self),
             kpis := dict_setitem (kpis self) (name kpi) kpi\<rparr>)
       rest"

definition merge_payload ::
  "('t, 'v) BasePyNBP \<Rightarrow> ('t, 'v) NbpPayload \<Rightarrow> ('t, 'v) BasePyNBP" where
  "merge_payload self nbppayload =
     merge_kpis (self\<lparr>packettime := timestamp nbppayload\<rparr>) (nbpkpilist nbppayload)"

text \<open>The payloads of a sequence, merged one after the other.\<close>

fun merge_all ::
  "('t, 'v) BasePyNBP \<Rightarrow> ('t, 'v) NbpPayload list \<Rightarrow> ('t, 'v) BasePyNBP" where
  "merge_all self [] = self"
| "merge_all self (p # ps) = merge_all (merge_payload self p) ps"

subsection \<open>Control flow, trace, transport\<close>

text \<open>
  How a block of the loop body ends: it falls through (\<open>Normal\<close>), it executes
  \<^verbatim>\<open>continue\<close>, or an exception leaves it. Each carries the state reached.
\<close>

datatype 's flow = Normal 's | Continue 's | Raise exn 's

definition then_do :: "'s flow \<Rightarrow> ('s \<Rightarrow> 's flow) \<Rightarrow> 's flow" where
  "then_do m f = (case m of Normal s \<Rightarrow> f s | Continue s \<Rightarrow> Continue s | Raise e s \<Rightarrow> Raise e s)"

text \<open>\<^verbatim>\<open>try: body except cls: handler\<close>.\<close>

definition try_except :: "'s flow \<Rightarrow> exn_class \<Rightarrow> ('s \<Rightarrow> 's flow) \<Rightarrow> 's flow" where
  "try_except body cls handler =
     (case body of
        Raise e s \<Rightarrow> if catches cls e then handler s else Raise e s
      | Normal s \<Rightarrow> Normal s
      | Continue s \<Rightarrow> Continue s)"

text \<open>
  What the loop does to the outside: a call of the logger (with its level;
  \<^verbatim>\<open>logging.exception\<close> logs at level ERROR), a call of \<^verbatim>\<open>serport.write\<close> or
  \<^verbatim>\<open>conn.sendall\<close> with the bytes handed over, a call of \<^verbatim>\<open>close\<close>.
\<close>

datatype level = INFO | WARNING | ERROR

datatype event = Log level string | Write string | Close

text \<open>
  The local variables of \<^verbatim>\<open>run\<close> next to \<^verbatim>\<open>self\<close>. In \<^verbatim>\<open>WifiPyNBP.run\<close> the
  variable \<^verbatim>\<open>conn\<close> is bound whenever \<^verbatim>\<open>connected\<close> is true and is read only then.
  In \<^verbatim>\<open>PyNBP.run\<close> the variable \<^verbatim>\<open>serport\<close> starts as \<^verbatim>\<open>None\<close>.
\<close>

datatype Serial = Serial (is_open: bool)

record ('t, 'v) run_state =
  self :: "('t, 'v) BasePyNBP"
  connected :: bool
  trace :: "event list"

record ('t, 'v) PyNBP_state = "('t, 'v) run_state" +
  serport :: "Serial option"

definition PyNBP_start :: "('t, 'v) BasePyNBP \<Rightarrow> ('t, 'v) PyNBP_state" where
  "PyNBP_start s = \<lparr>self = s, connected = False, trace = [], serport = None\<rparr>"

definition WifiPyNBP_start :: "('t, 'v) BasePyNBP \<Rightarrow> ('t, 'v) run_state" where
  "WifiPyNBP_start s = \<lparr>self = s, connected = False, trace = []\<rparr>"

definition log_event :: "level \<Rightarrow> string \<Rightarrow> ('t, 'v, 'z) run_state_scheme \<Rightarrow> ('t, 'v, 'z) run_state_scheme" where
  "log_event l msg r = r\<lparr>trace := trace r @ [Log l msg]\<rparr>"

definition emit :: "event \<Rightarrow> ('t, 'v, 'z) run_state_scheme \<Rightarrow> ('t, 'v, 'z) run_state_scheme" where
  "emit ev r = r\<lparr>trace := trace r @ [ev]\<rparr>"

text \<open>The two assignments after a write that returned.\<close>

definition emitted :: "rat \<Rightarrow> ('t, 'v, 'z) run_state_scheme \<Rightarrow> ('t, 'v, 'z) run_state_scheme" where
  "emitted now r = r\<lparr>self := (self r)\<lparr>updatelist := [], last_update_time := now\<rparr>\<rparr>"

text \<open>
  The outcomes of the transport calls of one iteration of \<^verbatim>\<open>PyNBP.run\<close>, in
  the order of the calls: \<^verbatim>\<open>serial_for_url\<close> (\<open>None\<close>: a port is returned),
  \<^verbatim>\<open>serport.in_waiting\<close>, \<^verbatim>\<open>serport.read(serport.in_waiting)\<close>, the clock at
  the gate, \<^verbatim>\<open>serport.write\<close> (\<open>None\<close>: it returns), the clock after the write.
\<close>

record serial_io =
  ser_open :: "exn option"
  ser_in_waiting :: "exn + nat"
  ser_read :: "exn + string"
  ser_time :: rat
  ser_write :: "exn option"
  ser_time_done :: rat

text \<open>
  The same for \<^verbatim>\<open>WifiPyNBP.run\<close>: \<^verbatim>\<open>sock.accept\<close> (the client address as
  text), \<^verbatim>\<open>conn.recv(1024)\<close>, the \<^verbatim>\<open>sendall\<close> of the requested packet, the
  clock at the gate, the \<^verbatim>\<open>sendall\<close> of the regular packet, the clock after it.
\<close>

record socket_io =
  sock_accept :: "exn + string"
  sock_recv :: "exn + string"
  sock_sendall_request :: "exn option"
  sock_time :: rat
  sock_sendall :: "exn option"
  sock_time_done :: rat

subsection \<open>The serial broadcaster\<close>

text \<open>Lines 113 to 119: the attempt to open the port.\<close>

definition PyNBP_open :: "serial_io \<Rightarrow> ('t, 'v) PyNBP_state \<Rightarrow> ('t, 'v) PyNBP_state flow" where
  "PyNBP_open io r =
     (if \<not> connected r
      then try_except
             (case ser_open io of
                Some e \<Rightarrow> Raise e r
              | None \<Rightarrow> Normal (r\<lparr>serport := Some (Serial True), connected := True\<rparr>))
             Class_SerialException
             (\<lambda>r. Normal (log_event INFO
                     ''Comm Port conection not open - waiting for connection'' r))
      else Normal r)"

text \<open>
  Lines 121 and 122. \<^verbatim>\<open>and\<close> evaluates \<^verbatim>\<open>serport.is_open\<close> only when
  \<^verbatim>\<open>connected\<close> is false, and the attribute access on \<^verbatim>\<open>None\<close> raises.
\<close>

definition PyNBP_skip :: "('t, 'v) PyNBP_state \<Rightarrow> ('t, 'v) PyNBP_state flow" where
  "PyNBP_skip r =
     (if \<not> connected r
      then (case serport r of
              None \<Rightarrow> Raise (AttributeError ''is_open'') r
            | Some port \<Rightarrow> if \<not> is_open port then Continue r else Normal r)
      else Normal r)"

text \<open>Lines 124 to 136: the body of the \<^verbatim>\<open>try\<close>.\<close>

definition PyNBP_drain ::
  "('t, 'v) builtins \<Rightarrow> serial_io \<Rightarrow> ('t, 'v) PyNBP_state \<Rightarrow> ('t, 'v) PyNBP_state flow" where
  "PyNBP_drain py io r =
     (case serport r of
        None \<Rightarrow> Raise (AttributeError ''in_waiting'') r
      | Some port \<Rightarrow>
          (case ser_in_waiting io of
             Inl e \<Rightarrow> Raise e r
           | Inr n \<Rightarrow>
               if n > 0
               then (case ser_read io of
                       Inl e \<Rightarrow> Raise e r
                     | Inr data \<Rightarrow>
                         (case bytes_decode py data of
                            Inl e \<Rightarrow> Raise e r
                          | Inr text \<Rightarrow> Normal (log_event INFO text r)))
               else Normal r))"

definition PyNBP_send ::
  "('t, 'v) builtins \<Rightarrow> serial_io \<Rightarrow> ('t, 'v) NbpPayload \<Rightarrow> ('t, 'v) PyNBP_state
     \<Rightarrow> ('t, 'v) PyNBP_state flow" where
  "PyNBP_send py io nbppayload r =
     (if ser_time io - last_update_time (self r) < min_update_interval (self r)
      then Continue r
      else (case genpacket py (self r) (packettype nbppayload) of
              Inl e \<Rightarrow> Raise e r
            | Inr nbppacket \<Rightarrow>
                let r1 = emit (Write nbppacket) (log_event WARNING nbppacket r)
                in (case ser_write io of
                      Some e \<Rightarrow> Raise e r1
                    | None \<Rightarrow> Normal (emitted (ser_time_done io) r1))))"

text \<open>Lines 138 to 141: the handler.\<close>

definition PyNBP_handler :: "('t, 'v) PyNBP_state \<Rightarrow> ('t, 'v) PyNBP_state flow" where
  "PyNBP_handler r =
     (let r1 = log_event ERROR ''Serial Write timeout. Closing port.'' r
      in case serport r1 of
           None \<Rightarrow> Raise (AttributeError ''close'') r1
         | Some port \<Rightarrow>
             Normal ((emit Close r1)\<lparr>serport := Some (Serial False), connected := False\<rparr>))"

text \<open>Lines 123 to 141: the \<^verbatim>\<open>try\<close> statement.\<close>

definition PyNBP_try ::
  "('t, 'v) builtins \<Rightarrow> serial_io \<Rightarrow> ('t, 'v) NbpPayload \<Rightarrow> ('t, 'v) PyNBP_state
     \<Rightarrow> ('t, 'v) PyNBP_state flow" where
  "PyNBP_try py io nbppayload r =
     try_except (then_do (PyNBP_drain py io r) (PyNBP_send py io nbppayload))
       Class_SerialTimeoutException PyNBP_handler"

text \<open>One iteration of \<^verbatim>\<open>while True\<close> in \<^verbatim>\<open>PyNBP.run\<close>, on the payload dequeued.\<close>

definition PyNBP_step ::
  "('t, 'v) builtins \<Rightarrow> serial_io \<Rightarrow> ('t, 'v) NbpPayload \<Rightarrow> ('t, 'v) PyNBP_state
     \<Rightarrow> ('t, 'v) PyNBP_state flow" where
  "PyNBP_step py io nbppayload r =
     then_do (PyNBP_open io (r\<lparr>self := merge_payload (self r) nbppayload\<rparr>))
       (\<lambda>r. then_do (PyNBP_skip r) (PyNBP_try py io nbppayload))"

text \<open>
  The loop, on the payloads the queue delivers and the outcomes of the transport
  calls. When they are used up the thread waits in \<^verbatim>\<open>nbpqueue.get()\<close> with the
  state reached; an exception that leaves the body ends the loop.
\<close>

fun PyNBP_run ::
  "('t, 'v) builtins \<Rightarrow> ('t, 'v) PyNBP_state \<Rightarrow> (('t, 'v) NbpPayload \<times> serial_io) list
     \<Rightarrow> ('t, 'v) PyNBP_state flow" where
  "PyNBP_run py r [] = Normal r"
| "PyNBP_run py r ((nbppayload, io) # rest) =
     (case PyNBP_step py io nbppayload r of
        Raise e r' \<Rightarrow> Raise e r'
      | Normal r' \<Rightarrow> PyNBP_run py r' rest
      | Continue r' \<Rightarrow> PyNBP_run py r' rest)"

subsection \<open>The socket broadcaster\<close>

text \<open>Lines 177 to 186: the attempt to accept a client.\<close>

definition WifiPyNBP_accept :: "socket_io \<Rightarrow> ('t, 'v) run_state \<Rightarrow> ('t, 'v) run_state flow" where
  "WifiPyNBP_accept io r =
     (if \<not> connected r
      then try_except
             (case sock_accept io of
                Inl e \<Rightarrow> Raise e r
              | Inr client_address \<Rightarrow>
                  Normal (log_event WARNING (''Connection from '' @ client_address @ '' open'')
                            (r\<lparr>connected := True\<rparr>)))
             Class_socket_timeout
             (\<lambda>r. Normal (log_event INFO
                     ''Socket conection not open - waiting for connection'' r))
      else Normal r)"

text \<open>Lines 191 to 197: the body of the first \<^verbatim>\<open>try\<close>, whose handler is \<^verbatim>\<open>pass\<close>.\<close>

definition WifiPyNBP_request ::
  "('t, 'v) builtins \<Rightarrow> socket_io \<Rightarrow> ('t, 'v) run_state \<Rightarrow> ('t, 'v) run_state flow" where
  "WifiPyNBP_request py io r =
     (case sock_recv io of
        Inl e \<Rightarrow> Raise e r
      | Inr data \<Rightarrow>
          if data \<noteq> []
          then (case bytes_decode py data of
                  Inl e \<Rightarrow> Raise e r
                | Inr decoded \<Rightarrow>
                    let text = str_strip py decoded;
                        r1 = log_event INFO text r
                    in if text = ''!ALL''
                       then let r2 = log_event WARNING ''ALL Packet Requested. Sending'' r1
                            in (case genpacket py (self r2) ''ALL'' of
                                  Inl e \<Rightarrow> Raise e r2
                                | Inr nbppacket \<Rightarrow>
                                    (case sock_sendall_request io of
                                       Some e \<Rightarrow> Raise e (emit (Write nbppacket) r2)
                                     | None \<Rightarrow> Normal (emit (Write nbppacket) r2)))
                       else Normal r1)
          else Normal r)"

text \<open>Lines 203 to 212: the body of the second \<^verbatim>\<open>try\<close>.\<close>

definition WifiPyNBP_send ::
  "('t, 'v) builtins \<Rightarrow> socket_io \<Rightarrow> ('t, 'v) NbpPayload \<Rightarrow> ('t, 'v) run_state
     \<Rightarrow> ('t, 'v) run_state flow" where
  "WifiPyNBP_send py io nbppayload r =
     (if sock_time io - last_update_time (self r) < min_update_interval (self r)
      then Continue r
      else (case genpacket py (self r) (packettype nbppayload) of
              Inl e \<Rightarrow> Raise e r
            | Inr nbppacket \<Rightarrow>
                let r1 = emit (Write nbppacket) (log_event WARNING nbppacket r)
                in (case sock_sendall io of
                      Some e \<Rightarrow> Raise e r1
                    | None \<Rightarrow> Normal (emitted (sock_time_done io) r1))))"

text \<open>Lines 214 to 217: the handler of \<^verbatim>\<open>except Exception\<close>.\<close>

definition WifiPyNBP_handler :: "('t, 'v) run_state \<Rightarrow> ('t, 'v) run_state flow" where
  "WifiPyNBP_handler r =
     Normal ((emit Close (log_event ERROR ''Wifi Write Failed. Closing port.'' r))
               \<lparr>connected := False\<rparr>)"

text \<open>Lines 190 to 200 and lines 201 to 217: the two \<^verbatim>\<open>try\<close> statements.\<close>

definition WifiPyNBP_try_request ::
  "('t, 'v) builtins \<Rightarrow> socket_io \<Rightarrow> ('t, 'v) run_state \<Rightarrow> ('t, 'v) run_state flow" where
  "WifiPyNBP_try_request py io r =
     try_except (WifiPyNBP_request py io r) Class_BlockingIOError Normal"

definition WifiPyNBP_try_send ::
  "('t, 'v) builtins \<Rightarrow> socket_io \<Rightarrow> ('t, 'v) NbpPayload \<Rightarrow> ('t, 'v) run_state
     \<Rightarrow> ('t, 'v) run_state flow" where
  "WifiPyNBP_try_send py io nbppayload r =
     try_except (WifiPyNBP_send py io nbppayload r) Any_Exception WifiPyNBP_handler"

text \<open>One iteration of \<^verbatim>\<open>while True\<close> in \<^verbatim>\<open>WifiPyNBP.run\<close>.\<close>

definition WifiPyNBP_step ::
  "('t, 'v) builtins \<Rightarrow> socket_io \<Rightarrow> ('t, 'v) NbpPayload \<Rightarrow> ('t, 'v) run_state
     \<Rightarrow> ('t, 'v) run_state flow" where
  "WifiPyNBP_step py io nbppayload r =
     then_do (WifiPyNBP_accept io (r\<lparr>self := merge_payload (self r) nbppayload\<rparr>))
       (\<lambda>r. if \<not> connected r then Continue r
            else then_do (WifiPyNBP_try_request py io r) (WifiPyNBP_try_send py io nbppayload))"

fun WifiPyNBP_run ::
  "('t, 'v) builtins \<Rightarrow> ('t, 'v) run_state \<Rightarrow> (('t, 'v) NbpPayload \<times> socket_io) list
     \<Rightarrow> ('t, 'v) run_state flow" where
  "WifiPyNBP_run py r [] = Normal r"
| "WifiPyNBP_run py r ((nbppayload, io) # rest) =
     (case WifiPyNBP_step py io nbppayload r of
        Raise e r' \<Rightarrow> Raise e r'
      | Normal r' \<Rightarrow> WifiPyNBP_run py r' rest
      | Continue r' \<Rightarrow> WifiPyNBP_run py r' rest)"

subsection \<open>An instance of the built-ins\<close>

text \<open>
  Numbers that are Python ints and text that is ASCII, on which concrete runs are
  evaluated. \<^verbatim>\<open>str(n)\<close> is the decimal numeral; \<^verbatim>\<open>"{:.6f}".format(n)\<close> is that
  numeral with six zeros after the point (for \<open>n\<close> that a float holds exactly);
  decoding keeps ASCII bytes and refuses a byte from 128 on, which stands for
  input that is not UTF-8; \<^verbatim>\<open>strip\<close> removes the ASCII whitespace at both ends.
\<close>

fun str_nat :: "nat \<Rightarrow> string" where
  "str_nat n =
     (if n < 10 then [''0123456789'' ! n]
      else str_nat (n div 10) @ [''0123456789'' ! (n mod 10)])"

definition str_int :: "int \<Rightarrow> string" where
  "str_int i = (if i < 0 then ''-'' @ str_nat (nat (- i)) else str_nat (nat i))"

definition ascii_decode :: "string \<Rightarrow> exn + string" where
  "ascii_decode bs = (if list_all (\<lambda>c. of_char c < (128::nat)) bs then Inr bs else Inl UnicodeDecodeError)"

definition ascii_space :: "char \<Rightarrow> bool" where
  "ascii_space c = (let n = (of_char c :: nat) in (9 \<le> n \<and> n \<le> 13) \<or> (28 \<le> n \<and> n \<le> 32))"

definition ascii_strip :: "string \<Rightarrow> string" where
  "ascii_strip s = rev (dropWhile ascii_space (rev (dropWhile ascii_space s)))"

definition int_builtins :: "(int, int) builtins" where
  "int_builtins =
     \<lparr>format_6f = (\<lambda>n. str_int n @ ''.000000''), format_plain = str_int,
      bytes_decode = ascii_decode, str_strip = ascii_strip\<rparr>"

subsection \<open>The specification's notions\<close>

text \<open>
  One line of the body, as the specification writes it: the name in quotes, then the
  unit in quotes when there is one, a colon, the value, a newline.
\<close>

definition kpi_line :: "('v \<Rightarrow> string) \<Rightarrow> 'v NbpKPI \<Rightarrow> string" where
  \<open>kpi_line fmt kpi =
     (if unit kpi = [] then ''"'' @ name kpi @ ''":'' @ fmt (kpi_value kpi) @ ''\<newline>''
      else ''"'' @ name kpi @ ''","'' @ unit kpi @ ''":'' @ fmt (kpi_value kpi) @ ''\<newline>'')\<close>

text \<open>
  The KPIs a packet of a kind selects: for UPDATE with pending names, the table's
  entries of those names in the order of the names; otherwise the whole table in its order.
\<close>

definition selected :: "('t, 'v) BasePyNBP \<Rightarrow> string \<Rightarrow> 'v NbpKPI list" where
  "selected s kind =
     (if kind = ''UPDATE'' \<and> updatelist s \<noteq> []
      then List.map_filter (map_of (kpis s)) (updatelist s)
      else map snd (kpis s))"

text \<open>Each element once, at the place of its first occurrence.\<close>

fun first_seen :: "'a list \<Rightarrow> 'a list" where
  "first_seen [] = []"
| "first_seen (x # xs) = x # removeAll x (first_seen xs)"

text \<open>Last write wins: the last KPI of a name in a list of KPIs, if there is one.\<close>

definition last_write :: "'v NbpKPI list \<Rightarrow> string \<Rightarrow> 'v NbpKPI option" where
  "last_write ks n =
     (case filter (\<lambda>k. name k = n) ks of [] \<Rightarrow> None | k # rest \<Rightarrow> Some (last (k # rest)))"

text \<open>The way both loops extend a list of names: a name not yet in it goes to its end.\<close>

fun add_new :: "'a list \<Rightarrow> 'a list \<Rightarrow> 'a list" where
  "add_new u [] = u"
| "add_new u (y # ys) = add_new (if y \<notin> set u then u @ [y] else u) ys"

subsection \<open>Sample inputs\<close>

definition rpm_afr :: "(int, int) NbpPayload" where
  "rpm_afr = NbpPayload 12 ''UPDATE''
     [NbpKPI ''RPM'' ''rpm'' 4500, NbpKPI ''RPM'' ''rpm'' 4600, NbpKPI ''AFR'' [] 147]"

definition oil :: "(int, int) NbpPayload" where
  "oil = NbpPayload 13 ''ALL'' [NbpKPI ''OIL'' ''psi'' 61, NbpKPI ''AFR'' [] 151]"

definition rpm_afr_state :: "(int, int) BasePyNBP" where
  "rpm_afr_state = merge_payload BasePyNBP_default rpm_afr"

subsection \<open>Observations on a run\<close>

text \<open>The state a block ends in, however it ends.\<close>

fun state_of :: "'s flow \<Rightarrow> 's" where
  "state_of (Normal s) = s"
| "state_of (Continue s) = s"
| "state_of (Raise e s) = s"

text \<open>The byte sequences handed to the transport, in order.\<close>

fun writes :: "event list \<Rightarrow> string list" where
  "writes [] = []"
| "writes (Write b # evs) = b # writes evs"
| "writes (Log l m # evs) = writes evs"
| "writes (Close # evs) = writes evs"

text \<open>A block that leaves \<^verbatim>\<open>self\<close> as it is and writes nothing.\<close>

definition frame :: "('t, 'v, 'z) run_state_scheme \<Rightarrow> ('t, 'v, 'z) run_state_scheme \<Rightarrow> bool" where
  "frame r r' = (self r' = self r \<and> writes (trace r') = writes (trace r))"

text \<open>The full packet of a state, as the specification lays it out.\<close>

definition all_packet :: "('t, 'v) builtins \<Rightarrow> ('t, 'v) BasePyNBP \<Rightarrow> string" where
  "all_packet py s =
     ''*'' @ protocol_version s @ '',ALL,'' @ format_6f py (packettime s) @ ''\<newline>''
     @ concat (map (kpi_line (format_plain py)) (dict_values (kpis s))) @ ''#\<newline>\<newline>''"

text \<open>
  The draining of the serial port goes through: nothing is buffered, or the read
  and the decoding of what is buffered return.
\<close>

definition drain_passes :: "('t, 'v) builtins \<Rightarrow> serial_io \<Rightarrow> bool" where
  "drain_passes py io =
     (case ser_in_waiting io of
        Inl e \<Rightarrow> False
      | Inr n \<Rightarrow>
          n = 0 \<or>
          (case ser_read io of
             Inl e \<Rightarrow> False
           | Inr data \<Rightarrow> (case bytes_decode py data of Inl e \<Rightarrow> False | Inr t \<Rightarrow> True)))"

text \<open>
  The reading of the client goes through: nothing to read (would block, or no
  bytes), or bytes that decode and either are no request or are a request whose
  reply is sent (or would block).
\<close>

definition request_passes :: "('t, 'v) builtins \<Rightarrow> socket_io \<Rightarrow> bool" where
  "request_passes py io =
     (case sock_recv io of
        Inl e \<Rightarrow> e = BlockingIOError
      | Inr data \<Rightarrow>
          data = [] \<or>
          (case bytes_decode py data of
             Inl e \<Rightarrow> e = BlockingIOError
           | Inr decoded \<Rightarrow>
               str_strip py decoded \<noteq> ''!ALL'' \<or> sock_sendall_request io = None \<or>
               sock_sendall_request io = Some BlockingIOError))"

text \<open>The rate gate is closed: the comparison of lines 127 and 203.\<close>

definition gate_closed :: "rat \<Rightarrow> ('t, 'v) BasePyNBP \<Rightarrow> bool" where
  "gate_closed now s = (now - last_update_time s < min_update_interval s)"

text \<open>
  A transport on which every call succeeds and nothing arrives: the port opens (a
  client is accepted), no byte is buffered (the read would block), the writes
  return. The clock reads \<open>t\<close> at the gate and \<open>d\<close> after the write.
\<close>

definition serial_ok :: "rat \<Rightarrow> rat \<Rightarrow> serial_io" where
  "serial_ok t d =
     \<lparr>ser_open = None, ser_in_waiting = Inr 0, ser_read = Inr [], ser_time = t,
      ser_write = None, ser_time_done = d\<rparr>"

definition socket_ok :: "rat \<Rightarrow> rat \<Rightarrow> socket_io" where
  "socket_ok t d =
     \<lparr>sock_accept = Inr ''client'', sock_recv = Inl BlockingIOError,
      sock_sendall_request = None, sock_time = t, sock_sendall = None, sock_time_done = d\<rparr>"

text \<open>A payload whose kind is none of the three.\<close>

definition bogus :: "(int, int) NbpPayload" where
  "bogus = NbpPayload 14 ''BOGUS'' [NbpKPI ''RPM'' ''rpm'' 4700]"

text \<open>Loop states with a connection, on the state \<open>rpm_afr_state\<close>.\<close>

definition serial_connected :: "(int, int) PyNBP_state" where
  "serial_connected =
     \<lparr>self = rpm_afr_state, connected = True, trace = [], serport = Some (Serial True)\<rparr>"

definition socket_connected :: "(int, int) run_state" where
  "socket_connected = \<lparr>self = rpm_afr_state, connected = True, trace = []\<rparr>"

text \<open>A payload of kind METADATA that carries a KPI, and a later UPDATE of one KPI.\<close>

definition meta :: "(int, int) NbpPayload" where
  "meta = NbpPayload 15 ''METADATA'' [NbpKPI ''OIL'' ''psi'' 61]"

definition afr_only :: "(int, int) NbpPayload" where
  "afr_only = NbpPayload 16 ''UPDATE'' [NbpKPI ''AFR'' [] 152]"



section \<open>Auxiliary facts\<close>

lemma genlines_concat:
  "genlines fmt packet ks = packet @ concat (map (kpi_line fmt) ks)"
  by (induction ks arbitrary: packet) (simp_all add: kpi_line_def)

lemma getitems_present:
  "set ns \<subseteq> fst ` set d \<Longrightarrow> getitems d ns = Inr (List.map_filter (map_of d) ns)"
proof (induction ns)
  case Nil
  then show ?case by (simp add: List.map_filter_simps)
next
  case (Cons n ns)
  then obtain v where "map_of d n = Some v"
    by (metis list.set_intros(1) map_of_eq_None_iff not_Some_eq subsetD)
  with Cons show ?case by (simp add: dict_getitem_def List.map_filter_simps)
qed

lemma map_filter_present:
  "set ns \<subseteq> fst ` set d \<Longrightarrow> map Some (List.map_filter (map_of d) ns) = map (map_of d) ns"
proof (induction ns)
  case Nil
  then show ?case by (simp add: List.map_filter_simps)
next
  case (Cons n ns)
  then obtain v where "map_of d n = Some v"
    by (metis list.set_intros(1) map_of_eq_None_iff not_Some_eq subsetD)
  with Cons show ?case by (simp add: List.map_filter_simps)
qed

lemma add_new_first_seen:
  "add_new u ys = u @ filter (\<lambda>y. y \<notin> set u) (first_seen ys)"
proof (induction ys arbitrary: u)
  case Nil
  then show ?case by simp
next
  case (Cons y ys)
  have rm: "filter P (removeAll y zs) = filter (\<lambda>z. z \<noteq> y \<and> P z) zs" for P and zs :: "'a list"
    by (induction zs) auto
  show ?case
  proof (cases "y \<in> set u")
    case True
    then have "filter (\<lambda>z. z \<noteq> y \<and> z \<notin> set u) (first_seen ys) = filter (\<lambda>z. z \<notin> set u) (first_seen ys)"
      by (intro filter_cong) auto
    with True Cons show ?thesis by (simp add: rm)
  next
    case False
    have "filter (\<lambda>z. z \<noteq> y \<and> z \<notin> set u) (first_seen ys) = filter (\<lambda>z. z \<notin> set (u @ [y])) (first_seen ys)"
      by (intro filter_cong) auto
    with False Cons show ?thesis by (simp add: rm)
  qed
qed

lemma keys_setitem:
  "map fst (dict_setitem d k v) = (if k \<notin> set (map fst d) then map fst d @ [k] else map fst d)"
  by (induction d) force+

lemma map_of_setitem: "map_of (dict_setitem d k v) = (map_of d)(k \<mapsto> v)"
  by (induction d) (auto simp: fun_eq_iff)

lemma merge_kpis_updatelist:
  "updatelist (merge_kpis s ks) = add_new (updatelist s) (map name ks)"
  by (induction ks arbitrary: s) simp_all

lemma merge_kpis_keys:
  "map fst (kpis (merge_kpis s ks)) = add_new (map fst (kpis s)) (map name ks)"
  by (induction ks arbitrary: s) (simp_all add: keys_setitem)

lemma last_write_Cons:
  "last_write (k # ks) n = (case last_write ks n of Some v \<Rightarrow> Some v | None \<Rightarrow> if name k = n then Some k else None)"
  by (auto simp: last_write_def split: list.splits)

lemma merge_kpis_map_of:
  "map_of (kpis (merge_kpis s ks)) n =
     (case last_write ks n of Some v \<Rightarrow> Some v | None \<Rightarrow> map_of (kpis s) n)"
proof (induction ks arbitrary: s)
  case Nil
  then show ?case by (simp add: last_write_def)
next
  case (Cons k ks)
  then show ?case
    by (simp add: last_write_Cons map_of_setitem split: option.splits)
qed

lemma merge_kpis_fields:
  "device_name (merge_kpis s ks) = device_name s"
  "protocol_version (merge_kpis s ks) = protocol_version s"
  "last_update_time (merge_kpis s ks) = last_update_time s"
  "min_update_interval (merge_kpis s ks) = min_update_interval s"
  "packettime (merge_kpis s ks) = packettime s"
  by (induction ks arbitrary: s) simp_all

lemma add_new_append: "add_new u (xs @ ys) = add_new (add_new u xs) ys"
  by (induction xs arbitrary: u) simp_all

lemma last_write_append:
  "last_write (xs @ ys) n = (case last_write ys n of Some v \<Rightarrow> Some v | None \<Rightarrow> last_write xs n)"
  by (induction xs) (simp_all add: last_write_Cons last_write_def split: option.splits list.splits)

lemma merge_all_updatelist:
  "updatelist (merge_all s ps) = add_new (updatelist s) (map name (concat (map nbpkpilist ps)))"
  by (induction ps arbitrary: s)
     (simp_all add: merge_payload_def merge_kpis_updatelist add_new_append)

lemma merge_all_keys:
  "map fst (kpis (merge_all s ps)) = add_new (map fst (kpis s)) (map name (concat (map nbpkpilist ps)))"
  by (induction ps arbitrary: s)
     (simp_all add: merge_payload_def merge_kpis_keys add_new_append)

lemma merge_all_map_of:
  "map_of (kpis (merge_all s ps)) n =
     (case last_write (concat (map nbpkpilist ps)) n of
        Some v \<Rightarrow> Some v | None \<Rightarrow> map_of (kpis s) n)"
proof (induction ps arbitrary: s)
  case Nil
  then show ?case by (simp add: last_write_def)
next
  case (Cons p ps)
  show ?case
    by (simp add: Cons merge_payload_def merge_kpis_map_of last_write_append
        split: option.splits)
qed

lemma merge_all_packettime:
  "ps \<noteq> [] \<Longrightarrow> packettime (merge_all s ps) = timestamp (last ps)"
proof (induction ps arbitrary: s)
  case Nil
  then show ?case by simp
next
  case (Cons p ps)
  then show ?case
    by (cases ps) (simp_all add: merge_payload_def merge_kpis_fields)
qed

lemma first_seen_distinct: "distinct (first_seen xs)"
  by (induction xs) (simp_all add: distinct_removeAll)

lemma first_seen_set: "set (first_seen xs) = set xs"
  by (induction xs) auto

declare str_nat.simps [simp del]

lemma rpm_afr_state_eq:
  "rpm_afr_state =
     \<lparr>device_name = ''PyNBP'', protocol_version = ''NBP1'', last_update_time = 0,
      packettime = 12,
      kpis = [(''RPM'', NbpKPI ''RPM'' ''rpm'' 4600), (''AFR'', NbpKPI ''AFR'' [] 147)],
      updatelist = [''RPM'', ''AFR''], min_update_interval = 0.2\<rparr>"
  by (simp add: rpm_afr_state_def rpm_afr_def merge_payload_def BasePyNBP_default_def
      BasePyNBP_init_def)

lemma str_int_samples:
  "str_int 4600 = ''4600''" "str_int 147 = ''147''" "str_int 12 = ''12''"
  "str_int 151 = ''151''" "str_int 61 = ''61''" "str_int 13 = ''13''"
  by (simp_all add: str_int_def str_nat.simps)

lemma merge_payload_fields:
  "device_name (merge_payload s p) = device_name s"
  "protocol_version (merge_payload s p) = protocol_version s"
  "last_update_time (merge_payload s p) = last_update_time s"
  "min_update_interval (merge_payload s p) = min_update_interval s"
  "packettime (merge_payload s p) = timestamp p"
  by (simp_all add: merge_payload_def merge_kpis_fields)

lemma genpacket_ALL: "genpacket py s ''ALL'' = Inr (all_packet py s)"
  by (simp add: genpacket_def genlines_concat str_encode_def all_packet_def)

lemma genpacket_invalid:
  "kind \<notin> set [''ALL'', ''UPDATE'', ''METADATA''] \<Longrightarrow>
     genpacket py s kind = Inl (ValueError (''Unrecognize ptype: '' @ kind))"
  by (simp add: genpacket_def)

lemma genpacket_valid:
  assumes "kind \<in> set [''ALL'', ''UPDATE'', ''METADATA'']"
    and "set (updatelist s) \<subseteq> fst ` set (kpis s)"
  shows "\<exists>pkt. genpacket py s kind = Inr pkt"
  using assms by (auto simp add: genpacket_def getitems_present)

lemma writes_append: "writes (xs @ ys) = writes xs @ writes ys"
  by (induction xs rule: writes.induct) simp_all

lemma then_do_cases:
  "(\<exists>s. m = Normal s \<and> then_do m f = f s) \<or>
   (then_do m f = m \<and> (\<forall>s. m \<noteq> Normal s))"
  by (cases m) (simp_all add: then_do_def)

subsection \<open>The blocks of the serial loop\<close>

lemma open_frame: "frame r (state_of (PyNBP_open io r))"
  by (simp add: PyNBP_open_def try_except_def log_event_def frame_def writes_append
      split: option.splits)

lemma skip_frame: "frame r (state_of (PyNBP_skip r))"
  by (simp add: PyNBP_skip_def frame_def split: option.splits)

lemma drain_frame: "frame r (state_of (PyNBP_drain py io r))"
  by (simp add: PyNBP_drain_def log_event_def frame_def writes_append
      split: option.splits sum.splits)

lemma drain_Normal:
  "serport r \<noteq> None \<Longrightarrow> drain_passes py io \<Longrightarrow>
     \<exists>r1. PyNBP_drain py io r = Normal r1 \<and> frame r r1 \<and> connected r1 = connected r
          \<and> serport r1 = serport r"
  by (auto simp add: PyNBP_drain_def drain_passes_def log_event_def frame_def writes_append
      split: sum.splits)

lemma send_closed:
  "gate_closed (ser_time io) (self r) \<Longrightarrow> PyNBP_send py io p r = Continue r"
  by (simp add: PyNBP_send_def gate_closed_def)

lemma send_open:
  assumes "\<not> gate_closed (ser_time io) (self r)"
    and "genpacket py (self r) (packettype p) = Inr pkt"
  shows "PyNBP_send py io p r =
           (case ser_write io of
              Some e \<Rightarrow> Raise e (emit (Write pkt) (log_event WARNING pkt r))
            | None \<Rightarrow>
                Normal (emitted (ser_time_done io) (emit (Write pkt) (log_event WARNING pkt r))))"
  using assms by (simp add: PyNBP_send_def gate_closed_def Let_def)

lemma send_self:
  "self (state_of (PyNBP_send py io p r)) = self r \<or>
   (ser_write io = None \<and> \<not> gate_closed (ser_time io) (self r) \<and>
    (\<exists>pkt r'. genpacket py (self r) (packettype p) = Inr pkt \<and>
       PyNBP_send py io p r = Normal r' \<and>
       self r' = (self r)\<lparr>updatelist := [], last_update_time := ser_time_done io\<rparr> \<and>
       writes (trace r') = writes (trace r) @ [pkt]))"
  by (auto simp add: PyNBP_send_def gate_closed_def Let_def log_event_def emit_def emitted_def
      writes_append split: sum.splits option.splits)

lemma handler_frame: "frame r (state_of (PyNBP_handler r))"
  by (simp add: PyNBP_handler_def log_event_def emit_def Let_def frame_def writes_append
      split: option.splits)

lemma handler_self: "self (state_of (PyNBP_handler r)) = self r"
  using handler_frame [of r] by (simp add: frame_def)

lemma serial_try_self:
  "self (state_of (PyNBP_try py io p r)) = self r \<or>
   (ser_write io = None \<and> \<not> gate_closed (ser_time io) (self r) \<and> drain_passes py io \<and>
    (\<exists>pkt r'. genpacket py (self r) (packettype p) = Inr pkt \<and>
       PyNBP_try py io p r = Normal r' \<and>
       self r' = (self r)\<lparr>updatelist := [], last_update_time := ser_time_done io\<rparr> \<and>
       writes (trace r') = writes (trace r) @ [pkt]))"
proof (cases "PyNBP_drain py io r")
  case (Normal r1)
  then have f: "self r1 = self r" "writes (trace r1) = writes (trace r)"
    using drain_frame [of r py io] by (simp_all add: frame_def)
  have dp: "drain_passes py io"
    using Normal
    by (auto simp add: PyNBP_drain_def drain_passes_def split: option.splits sum.splits if_splits)
  have t: "PyNBP_try py io p r =
             try_except (PyNBP_send py io p r1) Class_SerialTimeoutException PyNBP_handler"
    using Normal by (simp add: PyNBP_try_def then_do_def)
  from send_self [of py io p r1] show ?thesis
  proof
    assume same: "self (state_of (PyNBP_send py io p r1)) = self r1"
    have "self (state_of (PyNBP_try py io p r)) = self r"
      unfolding t using same f
      by (cases "PyNBP_send py io p r1") (simp_all add: try_except_def handler_self)
    then show ?thesis ..
  next
    assume "ser_write io = None \<and> \<not> gate_closed (ser_time io) (self r1) \<and>
      (\<exists>pkt r'. genpacket py (self r1) (packettype p) = Inr pkt \<and>
         PyNBP_send py io p r1 = Normal r' \<and>
         self r' = (self r1)\<lparr>updatelist := [], last_update_time := ser_time_done io\<rparr> \<and>
         writes (trace r') = writes (trace r1) @ [pkt])"
    with f dp t show ?thesis by (auto simp add: try_except_def)
  qed
next
  case (Continue r1)
  then show ?thesis
    by (simp add: PyNBP_drain_def split: option.splits sum.splits if_splits)
next
  case (Raise e r1)
  then have "self r1 = self r"
    using drain_frame [of r py io] by (simp add: frame_def)
  with Raise have "self (state_of (PyNBP_try py io p r)) = self r"
    by (simp add: PyNBP_try_def then_do_def try_except_def handler_self)
  then show ?thesis ..
qed

lemma serial_try_closed:
  assumes "gate_closed (ser_time io) (self r)"
  shows "frame r (state_of (PyNBP_try py io p r))"
proof (cases "PyNBP_drain py io r")
  case (Normal r1)
  then have f: "frame r r1" using drain_frame [of r py io] by simp
  then have "gate_closed (ser_time io) (self r1)"
    using assms by (simp add: frame_def gate_closed_def)
  then show ?thesis
    using Normal f by (simp add: PyNBP_try_def then_do_def try_except_def send_closed)
next
  case (Continue r1)
  then show ?thesis
    using drain_frame [of r py io] by (simp add: PyNBP_try_def then_do_def try_except_def)
next
  case (Raise e r1)
  then have f: "frame r r1" using drain_frame [of r py io] by simp
  with Raise show ?thesis
    using handler_frame [of r1]
    by (simp add: PyNBP_try_def then_do_def try_except_def frame_def)
qed

lemma serial_try_open:
  assumes "serport r \<noteq> None" "drain_passes py io"
    and "\<not> gate_closed (ser_time io) (self r)"
    and "genpacket py (self r) (packettype p) = Inr pkt"
  shows "writes (trace (state_of (PyNBP_try py io p r))) = writes (trace r) @ [pkt]
       \<and> (ser_write io = None \<longrightarrow>
            (\<exists>r'. PyNBP_try py io p r = Normal r' \<and> connected r' = connected r \<and>
                  serport r' = serport r \<and>
                  self r' = (self r)\<lparr>updatelist := [], last_update_time := ser_time_done io\<rparr>))"
proof -
  obtain r1 where d: "PyNBP_drain py io r = Normal r1" and f: "frame r r1"
    and c: "connected r1 = connected r" "serport r1 = serport r"
    using drain_Normal [OF assms(1,2)] by blast
  have g: "\<not> gate_closed (ser_time io) (self r1)"
    and k: "genpacket py (self r1) (packettype p) = Inr pkt"
    using f assms(3,4) by (simp_all add: frame_def gate_closed_def)
  have t: "PyNBP_try py io p r =
             try_except (PyNBP_send py io p r1) Class_SerialTimeoutException PyNBP_handler"
    using d by (simp add: PyNBP_try_def then_do_def)
  show ?thesis
    unfolding t send_open [OF g k]
    using f c
    by (auto simp add: try_except_def PyNBP_handler_def emit_def log_event_def emitted_def
        Let_def frame_def writes_append split: option.splits)
qed

lemma serial_step_shape:
  "(\<exists>r1. frame (r\<lparr>self := merge_payload (self r) p\<rparr>) r1 \<and>
         PyNBP_step py io p r = PyNBP_try py io p r1)
   \<or> (frame (r\<lparr>self := merge_payload (self r) p\<rparr>) (state_of (PyNBP_step py io p r)) \<and>
       (\<forall>r'. PyNBP_step py io p r \<noteq> Normal r'))"
proof -
  let ?r0 = "r\<lparr>self := merge_payload (self r) p\<rparr>"
  let ?k = "\<lambda>r. then_do (PyNBP_skip r) (PyNBP_try py io p)"
  have step: "PyNBP_step py io p r = then_do (PyNBP_open io ?r0) ?k"
    by (simp add: PyNBP_step_def)
  from then_do_cases [of "PyNBP_open io ?r0" ?k] show ?thesis
  proof
    assume "\<exists>s. PyNBP_open io ?r0 = Normal s \<and> then_do (PyNBP_open io ?r0) ?k = ?k s"
    then obtain r1 where o: "PyNBP_open io ?r0 = Normal r1"
      and s1: "PyNBP_step py io p r = ?k r1"
      using step by auto
    have f1: "frame ?r0 r1" using open_frame [of ?r0 io] o by simp
    from then_do_cases [of "PyNBP_skip r1" "PyNBP_try py io p"] show ?thesis
    proof
      assume "\<exists>s. PyNBP_skip r1 = Normal s \<and>
                then_do (PyNBP_skip r1) (PyNBP_try py io p) = PyNBP_try py io p s"
      then obtain r2 where k: "PyNBP_skip r1 = Normal r2"
        and s2: "PyNBP_step py io p r = PyNBP_try py io p r2"
        using s1 by auto
      have "frame r1 r2" using skip_frame [of r1] k by simp
      with f1 have "frame ?r0 r2" by (simp add: frame_def)
      with s2 show ?thesis by blast
    next
      assume a: "then_do (PyNBP_skip r1) (PyNBP_try py io p) = PyNBP_skip r1 \<and>
                 (\<forall>s. PyNBP_skip r1 \<noteq> Normal s)"
      then have "PyNBP_step py io p r = PyNBP_skip r1" using s1 by simp
      moreover have "frame ?r0 (state_of (PyNBP_skip r1))"
        using skip_frame [of r1] f1 by (simp add: frame_def)
      ultimately show ?thesis using a by simp
    qed
  next
    assume a: "then_do (PyNBP_open io ?r0) ?k = PyNBP_open io ?r0 \<and>
               (\<forall>s. PyNBP_open io ?r0 \<noteq> Normal s)"
    then have "PyNBP_step py io p r = PyNBP_open io ?r0" using step by simp
    then show ?thesis using a open_frame [of ?r0 io] by simp
  qed
qed

lemma serial_reaches_try:
  assumes "(connected r \<and> serport r \<noteq> None) \<or> (\<not> connected r \<and> ser_open io = None)"
  shows "\<exists>r1. PyNBP_step py io p r = PyNBP_try py io p r1 \<and>
              frame (r\<lparr>self := merge_payload (self r) p\<rparr>) r1 \<and> connected r1 \<and>
              serport r1 \<noteq> None"
  using assms
  by (auto simp add: PyNBP_step_def PyNBP_open_def PyNBP_skip_def then_do_def try_except_def
      frame_def)

subsection \<open>The blocks of the socket loop\<close>

lemma accept_frame: "frame r (state_of (WifiPyNBP_accept io r))"
  by (simp add: WifiPyNBP_accept_def try_except_def log_event_def frame_def writes_append
      split: sum.splits)

lemma accept_Normal:
  assumes "connected r \<or> (\<exists>a. sock_accept io = Inr a)"
  shows "\<exists>r1. WifiPyNBP_accept io r = Normal r1 \<and> frame r r1 \<and> connected r1"
  using assms
  by (auto simp add: WifiPyNBP_accept_def try_except_def log_event_def frame_def writes_append)

lemma wifi_handler_frame: "frame r (state_of (WifiPyNBP_handler r))"
  by (simp add: WifiPyNBP_handler_def log_event_def emit_def frame_def writes_append)

lemma request_self:
  "self (state_of (WifiPyNBP_try_request py io r)) = self r
   \<and> connected (state_of (WifiPyNBP_try_request py io r)) = connected r
   \<and> (writes (trace (state_of (WifiPyNBP_try_request py io r))) = writes (trace r) \<or>
      writes (trace (state_of (WifiPyNBP_try_request py io r))) =
        writes (trace r) @ [all_packet py (self r)])"
  by (auto simp add: WifiPyNBP_try_request_def WifiPyNBP_request_def try_except_def
      log_event_def emit_def Let_def genpacket_ALL writes_append
      split: sum.splits option.splits)

lemma request_Normal:
  "request_passes py io \<Longrightarrow> \<exists>r1. WifiPyNBP_try_request py io r = Normal r1"
  by (auto simp add: WifiPyNBP_try_request_def WifiPyNBP_request_def try_except_def
      request_passes_def log_event_def emit_def Let_def genpacket_ALL
      split: sum.splits option.splits)

lemma wifi_send_closed:
  "gate_closed (sock_time io) (self r) \<Longrightarrow> WifiPyNBP_try_send py io p r = Continue r"
  by (simp add: WifiPyNBP_try_send_def WifiPyNBP_send_def gate_closed_def try_except_def)


lemma wifi_send_self:
  "self (state_of (WifiPyNBP_try_send py io p r)) = self r \<or>
   (sock_sendall io = None \<and> \<not> gate_closed (sock_time io) (self r) \<and>
    (\<exists>pkt r'. genpacket py (self r) (packettype p) = Inr pkt \<and>
       WifiPyNBP_try_send py io p r = Normal r' \<and>
       self r' = (self r)\<lparr>updatelist := [], last_update_time := sock_time_done io\<rparr> \<and>
       writes (trace r') = writes (trace r) @ [pkt]))"
  by (auto simp add: WifiPyNBP_try_send_def WifiPyNBP_send_def WifiPyNBP_handler_def
      try_except_def gate_closed_def Let_def log_event_def emit_def emitted_def writes_append
      split: sum.splits option.splits)

lemma wifi_send_open:
  assumes "\<not> gate_closed (sock_time io) (self r)"
    and "genpacket py (self r) (packettype p) = Inr pkt"
  shows "writes (trace (state_of (WifiPyNBP_try_send py io p r))) = writes (trace r) @ [pkt]
       \<and> (sock_sendall io = None \<longrightarrow>
            (\<exists>r'. WifiPyNBP_try_send py io p r = Normal r' \<and> connected r' = connected r \<and>
                  self r' = (self r)\<lparr>updatelist := [], last_update_time := sock_time_done io\<rparr>))
       \<and> (\<forall>e. sock_sendall io = Some e \<longrightarrow>
            (\<exists>r'. WifiPyNBP_try_send py io p r = Normal r' \<and> \<not> connected r' \<and>
                  self r' = self r \<and>
                  trace r' = trace r @ [Log WARNING pkt, Write pkt,
                    Log ERROR ''Wifi Write Failed. Closing port.'', Close]))"
  using assms
  by (auto simp add: WifiPyNBP_try_send_def WifiPyNBP_send_def WifiPyNBP_handler_def
      try_except_def gate_closed_def Let_def log_event_def emit_def emitted_def writes_append
      split: option.splits)

lemma wifi_send_encoding_fails:
  assumes "\<not> gate_closed (sock_time io) (self r)"
    and "genpacket py (self r) (packettype p) = Inl e"
  shows "WifiPyNBP_try_send py io p r =
           Normal ((emit Close (log_event ERROR ''Wifi Write Failed. Closing port.'' r))
                     \<lparr>connected := False\<rparr>)"
  using assms
  by (simp add: WifiPyNBP_try_send_def WifiPyNBP_send_def WifiPyNBP_handler_def
      try_except_def gate_closed_def)

lemma wifi_step_shape:
  "(\<exists>r1. frame (r\<lparr>self := merge_payload (self r) p\<rparr>) r1 \<and> connected r1 \<and>
         WifiPyNBP_step py io p r =
           then_do (WifiPyNBP_try_request py io r1) (WifiPyNBP_try_send py io p))
   \<or> (frame (r\<lparr>self := merge_payload (self r) p\<rparr>) (state_of (WifiPyNBP_step py io p r)) \<and>
       (\<forall>r'. WifiPyNBP_step py io p r \<noteq> Normal r'))"
proof -
  let ?r0 = "r\<lparr>self := merge_payload (self r) p\<rparr>"
  show ?thesis
  proof (cases "WifiPyNBP_accept io ?r0")
    case (Normal r1)
    then have f: "frame ?r0 r1" using accept_frame [of ?r0 io] by simp
    show ?thesis
    proof (cases "connected r1")
      case True
      with Normal f show ?thesis by (auto simp add: WifiPyNBP_step_def then_do_def)
    next
      case False
      with Normal f show ?thesis by (simp add: WifiPyNBP_step_def then_do_def)
    qed
  next
    case (Continue r1)
    then show ?thesis
      using accept_frame [of ?r0 io] by (simp add: WifiPyNBP_step_def then_do_def)
  next
    case (Raise e r1)
    then show ?thesis
      using accept_frame [of ?r0 io] by (simp add: WifiPyNBP_step_def then_do_def)
  qed
qed

lemma wifi_reaches_request:
  assumes "connected r \<or> (\<exists>a. sock_accept io = Inr a)"
  shows "\<exists>r1. WifiPyNBP_step py io p r =
                then_do (WifiPyNBP_try_request py io r1) (WifiPyNBP_try_send py io p) \<and>
              frame (r\<lparr>self := merge_payload (self r) p\<rparr>) r1 \<and> connected r1"
proof -
  let ?r0 = "r\<lparr>self := merge_payload (self r) p\<rparr>"
  have "connected ?r0 \<or> (\<exists>a. sock_accept io = Inr a)" using assms by simp
  from accept_Normal [OF this] obtain r1 where
    "WifiPyNBP_accept io ?r0 = Normal r1" "frame ?r0 r1" "connected r1" by blast
  then show ?thesis by (auto simp add: WifiPyNBP_step_def then_do_def)
qed

subsection \<open>Whole iterations\<close>

lemma merge_payload_pending:
  assumes "set (updatelist s) \<subseteq> fst ` set (kpis s)"
  shows "set (updatelist (merge_payload s p)) \<subseteq> fst ` set (kpis (merge_payload s p))"
proof -
  have "set (add_new u ys) = set u \<union> set ys" for u ys :: "string list"
    by (auto simp add: add_new_first_seen first_seen_set)
  then have "set (updatelist (merge_payload s p)) = set (updatelist s) \<union> name ` set (nbpkpilist p)"
    and "set (map fst (kpis (merge_payload s p))) = set (map fst (kpis s)) \<union> name ` set (nbpkpilist p)"
    by (simp_all add: merge_payload_def merge_kpis_updatelist merge_kpis_keys)
  with assms show ?thesis by auto
qed

lemma serial_quiet_closed:
  assumes "connected r" "serport r = Some port" "ser_in_waiting io = Inr 0"
    and "gate_closed (ser_time io) (self r)"
  shows "PyNBP_step py io p r = Continue (r\<lparr>self := merge_payload (self r) p\<rparr>)"
  using assms
  by (simp add: PyNBP_step_def PyNBP_open_def PyNBP_skip_def PyNBP_try_def PyNBP_drain_def
      PyNBP_send_def then_do_def try_except_def gate_closed_def merge_payload_fields)

lemma serial_quiet_open:
  assumes "connected r" "serport r = Some port" "ser_in_waiting io = Inr 0"
    and "\<not> gate_closed (ser_time io) (self r)"
    and "genpacket py (merge_payload (self r) p) (packettype p) = Inr pkt"
    and "ser_write io = None"
  shows "PyNBP_step py io p r =
           Normal (emitted (ser_time_done io)
                     (emit (Write pkt) (log_event WARNING pkt
                        (r\<lparr>self := merge_payload (self r) p\<rparr>))))"
  using assms
  by (simp add: PyNBP_step_def PyNBP_open_def PyNBP_skip_def PyNBP_try_def PyNBP_drain_def
      PyNBP_send_def then_do_def try_except_def gate_closed_def merge_payload_fields Let_def)

lemma socket_quiet_closed:
  assumes "connected r" "sock_recv io = Inl BlockingIOError"
    and "gate_closed (sock_time io) (self r)"
  shows "WifiPyNBP_step py io p r = Continue (r\<lparr>self := merge_payload (self r) p\<rparr>)"
  using assms
  by (simp add: WifiPyNBP_step_def WifiPyNBP_accept_def WifiPyNBP_try_request_def
      WifiPyNBP_request_def WifiPyNBP_try_send_def WifiPyNBP_send_def then_do_def
      try_except_def gate_closed_def merge_payload_fields)

lemma socket_quiet_open:
  assumes "connected r" "sock_recv io = Inl BlockingIOError"
    and "\<not> gate_closed (sock_time io) (self r)"
    and "genpacket py (merge_payload (self r) p) (packettype p) = Inr pkt"
    and "sock_sendall io = None"
  shows "WifiPyNBP_step py io p r =
           Normal (emitted (sock_time_done io)
                     (emit (Write pkt) (log_event WARNING pkt
                        (r\<lparr>self := merge_payload (self r) p\<rparr>))))"
  using assms
  by (simp add: WifiPyNBP_step_def WifiPyNBP_accept_def WifiPyNBP_try_request_def
      WifiPyNBP_request_def WifiPyNBP_try_send_def WifiPyNBP_send_def then_do_def
      try_except_def gate_closed_def merge_payload_fields Let_def)

lemma serial_scenario:
  fixes r :: "('t, 'v) PyNBP_state"
  assumes c: "connected r" "serport r = Some port"
    and i: "min_update_interval (self r) = 0.2" "set (updatelist (self r)) \<subseteq> fst ` set (kpis (self r))"
    and k: "packettype p1 \<in> set [''ALL'', ''UPDATE'', ''METADATA'']"
           "packettype p3 \<in> set [''ALL'', ''UPDATE'', ''METADATA'']"
    and t: "\<not> gate_closed t1 (self r)" "t1 \<le> d1" "d1 \<le> t1 + 0.05"
  shows "\<exists>pkt1 pkt3.
           writes (trace (state_of (PyNBP_run py r
              [(p1, serial_ok t1 d1), (p2, serial_ok (t1 + 0.05) d2)]))) =
             writes (trace r) @ [pkt1]
         \<and> writes (trace (state_of (PyNBP_run py r
              [(p1, serial_ok t1 d1), (p2, serial_ok (t1 + 0.05) d2),
               (p3, serial_ok (t1 + 0.25) d3)]))) =
             writes (trace r) @ [pkt1, pkt3]"
proof -
  let ?m1 = "merge_payload (self r) p1"
  obtain pkt1 where g1: "genpacket py ?m1 (packettype p1) = Inr pkt1"
    using genpacket_valid [OF k(1) merge_payload_pending [OF i(2)]] by blast
  let ?r1 = "emitted d1 (emit (Write pkt1) (log_event WARNING pkt1 (r\<lparr>self := ?m1\<rparr>)))"
  have s1: "PyNBP_step py (serial_ok t1 d1) p1 r = Normal ?r1"
    using serial_quiet_open [of r port "serial_ok t1 d1" py p1 pkt1] c t(1) g1
    by (simp add: serial_ok_def)
  have r1: "connected ?r1" "serport ?r1 = Some port"
    "self ?r1 = ?m1\<lparr>updatelist := [], last_update_time := d1\<rparr>"
    "writes (trace ?r1) = writes (trace r) @ [pkt1]"
    using c by (simp_all add: emitted_def emit_def log_event_def writes_append)
  have closed2: "gate_closed (t1 + 0.05) (self ?r1)"
    unfolding r1(3) using t i(1) by (simp add: gate_closed_def merge_payload_fields)
  let ?r2 = "?r1\<lparr>self := merge_payload (self ?r1) p2\<rparr>"
  have s2: "PyNBP_step py (serial_ok (t1 + 0.05) d2) p2 ?r1 = Continue ?r2"
    using serial_quiet_closed [of ?r1 port "serial_ok (t1 + 0.05) d2" py p2] r1(1,2) closed2
    by (simp add: serial_ok_def)
  have r2: "connected ?r2" "serport ?r2 = Some port"
    "writes (trace ?r2) = writes (trace r) @ [pkt1]"
    using r1 by simp_all
  have self2: "self ?r2 = merge_payload (?m1\<lparr>updatelist := [], last_update_time := d1\<rparr>) p2"
    using r1(3) by simp
  have open3: "\<not> gate_closed (t1 + 0.25) (self ?r2)"
    unfolding self2 using t i(1) by (simp add: gate_closed_def merge_payload_fields)
  have inv2: "set (updatelist (self ?r2)) \<subseteq> fst ` set (kpis (self ?r2))"
    unfolding self2 by (rule merge_payload_pending) simp
  obtain pkt3 where g3: "genpacket py (merge_payload (self ?r2) p3) (packettype p3) = Inr pkt3"
    using genpacket_valid [OF k(2) merge_payload_pending [OF inv2]] by blast
  let ?r3 = "emitted d3 (emit (Write pkt3) (log_event WARNING pkt3
               (?r2\<lparr>self := merge_payload (self ?r2) p3\<rparr>)))"
  have s3: "PyNBP_step py (serial_ok (t1 + 0.25) d3) p3 ?r2 = Normal ?r3"
    using serial_quiet_open [of ?r2 port "serial_ok (t1 + 0.25) d3" py p3 pkt3] r2(1,2) open3 g3
    by (simp add: serial_ok_def)
  have w3: "writes (trace ?r3) = writes (trace r) @ [pkt1, pkt3]"
    using r2(3) by (simp add: emitted_def emit_def log_event_def writes_append)
  have "writes (trace (state_of (PyNBP_run py r
              [(p1, serial_ok t1 d1), (p2, serial_ok (t1 + 0.05) d2)]))) =
             writes (trace r) @ [pkt1]"
    using s1 s2 r2(3) by simp
  moreover have "writes (trace (state_of (PyNBP_run py r
              [(p1, serial_ok t1 d1), (p2, serial_ok (t1 + 0.05) d2),
               (p3, serial_ok (t1 + 0.25) d3)]))) =
             writes (trace r) @ [pkt1, pkt3]"
    using s1 s2 s3 w3 by simp
  ultimately show ?thesis by blast
qed

lemma socket_scenario:
  fixes r :: "('t, 'v) run_state"
  assumes c: "connected r"
    and i: "min_update_interval (self r) = 0.2" "set (updatelist (self r)) \<subseteq> fst ` set (kpis (self r))"
    and k: "packettype p1 \<in> set [''ALL'', ''UPDATE'', ''METADATA'']"
           "packettype p3 \<in> set [''ALL'', ''UPDATE'', ''METADATA'']"
    and t: "\<not> gate_closed t1 (self r)" "t1 \<le> d1" "d1 \<le> t1 + 0.05"
  shows "\<exists>pkt1 pkt3.
           writes (trace (state_of (WifiPyNBP_run py r
              [(p1, socket_ok t1 d1), (p2, socket_ok (t1 + 0.05) d2)]))) =
             writes (trace r) @ [pkt1]
         \<and> writes (trace (state_of (WifiPyNBP_run py r
              [(p1, socket_ok t1 d1), (p2, socket_ok (t1 + 0.05) d2),
               (p3, socket_ok (t1 + 0.25) d3)]))) =
             writes (trace r) @ [pkt1, pkt3]"
proof -
  let ?m1 = "merge_payload (self r) p1"
  obtain pkt1 where g1: "genpacket py ?m1 (packettype p1) = Inr pkt1"
    using genpacket_valid [OF k(1) merge_payload_pending [OF i(2)]] by blast
  let ?r1 = "emitted d1 (emit (Write pkt1) (log_event WARNING pkt1 (r\<lparr>self := ?m1\<rparr>)))"
  have s1: "WifiPyNBP_step py (socket_ok t1 d1) p1 r = Normal ?r1"
    using socket_quiet_open [of r "socket_ok t1 d1" py p1 pkt1] c t(1) g1
    by (simp add: socket_ok_def)
  have r1: "connected ?r1"
    "self ?r1 = ?m1\<lparr>updatelist := [], last_update_time := d1\<rparr>"
    "writes (trace ?r1) = writes (trace r) @ [pkt1]"
    using c by (simp_all add: emitted_def emit_def log_event_def writes_append)
  have closed2: "gate_closed (t1 + 0.05) (self ?r1)"
    unfolding r1(2) using t i(1) by (simp add: gate_closed_def merge_payload_fields)
  let ?r2 = "?r1\<lparr>self := merge_payload (self ?r1) p2\<rparr>"
  have s2: "WifiPyNBP_step py (socket_ok (t1 + 0.05) d2) p2 ?r1 = Continue ?r2"
    using socket_quiet_closed [of ?r1 "socket_ok (t1 + 0.05) d2" py p2] r1(1) closed2
    by (simp add: socket_ok_def)
  have r2: "connected ?r2" "writes (trace ?r2) = writes (trace r) @ [pkt1]"
    using r1 by simp_all
  have self2: "self ?r2 = merge_payload (?m1\<lparr>updatelist := [], last_update_time := d1\<rparr>) p2"
    using r1(2) by simp
  have open3: "\<not> gate_closed (t1 + 0.25) (self ?r2)"
    unfolding self2 using t i(1) by (simp add: gate_closed_def merge_payload_fields)
  have inv2: "set (updatelist (self ?r2)) \<subseteq> fst ` set (kpis (self ?r2))"
    unfolding self2 by (rule merge_payload_pending) simp
  obtain pkt3 where g3: "genpacket py (merge_payload (self ?r2) p3) (packettype p3) = Inr pkt3"
    using genpacket_valid [OF k(2) merge_payload_pending [OF inv2]] by blast
  let ?r3 = "emitted d3 (emit (Write pkt3) (log_event WARNING pkt3
               (?r2\<lparr>self := merge_payload (self ?r2) p3\<rparr>)))"
  have s3: "WifiPyNBP_step py (socket_ok (t1 + 0.25) d3) p3 ?r2 = Normal ?r3"
    using socket_quiet_open [of ?r2 "socket_ok (t1 + 0.25) d3" py p3 pkt3] r2(1) open3 g3
    by (simp add: socket_ok_def)
  have w3: "writes (trace ?r3) = writes (trace r) @ [pkt1, pkt3]"
    using r2(2) by (simp add: emitted_def emit_def log_event_def writes_append)
  have "writes (trace (state_of (WifiPyNBP_run py r
              [(p1, socket_ok t1 d1), (p2, socket_ok (t1 + 0.05) d2)]))) =
             writes (trace r) @ [pkt1]"
    using s1 s2 r2(2) by simp
  moreover have "writes (trace (state_of (WifiPyNBP_run py r
              [(p1, socket_ok t1 d1), (p2, socket_ok (t1 + 0.05) d2),
               (p3, socket_ok (t1 + 0.25) d3)]))) =
             writes (trace r) @ [pkt1, pkt3]"
    using s1 s2 s3 w3 by simp
  ultimately show ?thesis by blast
qed

lemma serial_gate_closed:
  assumes "gate_closed (ser_time io) (self r)"
  shows "self (state_of (PyNBP_step py io p r)) = merge_payload (self r) p
       \<and> writes (trace (state_of (PyNBP_step py io p r))) = writes (trace r)"
proof -
  let ?r0 = "r\<lparr>self := merge_payload (self r) p\<rparr>"
  have "frame ?r0 (state_of (PyNBP_step py io p r))"
    using serial_step_shape [of r p py io]
  proof
    assume "\<exists>r1. frame ?r0 r1 \<and> PyNBP_step py io p r = PyNBP_try py io p r1"
    then obtain r1 where f: "frame ?r0 r1" and s: "PyNBP_step py io p r = PyNBP_try py io p r1"
      by blast
    have "gate_closed (ser_time io) (self r1)"
      using f assms by (simp add: frame_def gate_closed_def merge_payload_fields)
    from serial_try_closed [OF this] f s show ?thesis by (simp add: frame_def)
  next
    assume "frame ?r0 (state_of (PyNBP_step py io p r)) \<and>
            (\<forall>r'. PyNBP_step py io p r \<noteq> Normal r')"
    then show ?thesis by simp
  qed
  then show ?thesis by (simp add: frame_def)
qed

lemma serial_gate_open:
  assumes "(connected r \<and> serport r \<noteq> None) \<or> (\<not> connected r \<and> ser_open io = None)"
    and "drain_passes py io"
    and "\<not> gate_closed (ser_time io) (self r)"
    and "genpacket py (merge_payload (self r) p) (packettype p) = Inr pkt"
  shows "writes (trace (state_of (PyNBP_step py io p r))) = writes (trace r) @ [pkt]
       \<and> (ser_write io = None \<longrightarrow>
            self (state_of (PyNBP_step py io p r)) =
              (merge_payload (self r) p)\<lparr>updatelist := [], last_update_time := ser_time_done io\<rparr>)"
proof -
  obtain r1 where s: "PyNBP_step py io p r = PyNBP_try py io p r1"
    and f: "frame (r\<lparr>self := merge_payload (self r) p\<rparr>) r1" and c: "serport r1 \<noteq> None"
    using serial_reaches_try [OF assms(1)] by blast
  have g: "\<not> gate_closed (ser_time io) (self r1)"
    and k: "genpacket py (self r1) (packettype p) = Inr pkt"
    using f assms(3,4) by (simp_all add: frame_def gate_closed_def merge_payload_fields)
  from serial_try_open [OF c assms(2) g k] f s show ?thesis
    by (auto simp add: frame_def)
qed

lemma socket_gate_closed:
  assumes "gate_closed (sock_time io) (self r)"
  shows "self (state_of (WifiPyNBP_step py io p r)) = merge_payload (self r) p
       \<and> (writes (trace (state_of (WifiPyNBP_step py io p r))) = writes (trace r) \<or>
          writes (trace (state_of (WifiPyNBP_step py io p r))) =
            writes (trace r) @ [all_packet py (merge_payload (self r) p)])"
proof -
  let ?r0 = "r\<lparr>self := merge_payload (self r) p\<rparr>"
  from wifi_step_shape [of r p py io] show ?thesis
  proof
    assume "\<exists>r1. frame ?r0 r1 \<and> connected r1 \<and>
         WifiPyNBP_step py io p r =
           then_do (WifiPyNBP_try_request py io r1) (WifiPyNBP_try_send py io p)"
    then obtain r1 where f: "frame ?r0 r1"
      and s: "WifiPyNBP_step py io p r =
                then_do (WifiPyNBP_try_request py io r1) (WifiPyNBP_try_send py io p)"
      by blast
    let ?q = "WifiPyNBP_try_request py io r1"
    have q: "self (state_of ?q) = self r1"
      "writes (trace (state_of ?q)) = writes (trace r1) \<or>
       writes (trace (state_of ?q)) = writes (trace r1) @ [all_packet py (self r1)]"
      using request_self [of py io r1] by simp_all
    have g: "gate_closed (sock_time io) (self (state_of ?q))"
      using q(1) f assms by (simp add: frame_def gate_closed_def merge_payload_fields)
    have "state_of (then_do ?q (WifiPyNBP_try_send py io p)) = state_of ?q"
      using wifi_send_closed [OF g] by (cases ?q) (simp_all add: then_do_def)
    with s q f show ?thesis by (auto simp add: frame_def)
  next
    assume "frame ?r0 (state_of (WifiPyNBP_step py io p r)) \<and>
            (\<forall>r'. WifiPyNBP_step py io p r \<noteq> Normal r')"
    then show ?thesis by (simp add: frame_def)
  qed
qed

lemma socket_gate_open:
  assumes "connected r \<or> (\<exists>a. sock_accept io = Inr a)"
    and "request_passes py io"
    and "\<not> gate_closed (sock_time io) (self r)"
    and "genpacket py (merge_payload (self r) p) (packettype p) = Inr pkt"
  shows "(\<exists>ws. writes (trace (state_of (WifiPyNBP_step py io p r))) = writes (trace r) @ ws @ [pkt]
             \<and> (ws = [] \<or> ws = [all_packet py (merge_payload (self r) p)]))
       \<and> (sock_sendall io = None \<longrightarrow>
            self (state_of (WifiPyNBP_step py io p r)) =
              (merge_payload (self r) p)\<lparr>updatelist := [], last_update_time := sock_time_done io\<rparr>)"
proof -
  obtain r1 where s: "WifiPyNBP_step py io p r =
                then_do (WifiPyNBP_try_request py io r1) (WifiPyNBP_try_send py io p)"
    and f: "frame (r\<lparr>self := merge_payload (self r) p\<rparr>) r1"
    using wifi_reaches_request [OF assms(1)] by blast
  obtain r2 where q: "WifiPyNBP_try_request py io r1 = Normal r2"
    using request_Normal [OF assms(2)] by blast
  have r2: "self r2 = self r1"
    "writes (trace r2) = writes (trace r1) \<or>
     writes (trace r2) = writes (trace r1) @ [all_packet py (self r1)]"
    using request_self [of py io r1] q by simp_all
  have g: "\<not> gate_closed (sock_time io) (self r2)"
    and k: "genpacket py (self r2) (packettype p) = Inr pkt"
    using r2(1) f assms(3,4) by (simp_all add: frame_def gate_closed_def merge_payload_fields)
  have s': "WifiPyNBP_step py io p r = WifiPyNBP_try_send py io p r2"
    using s q by (simp add: then_do_def)
  from wifi_send_open [OF g k] r2 f show ?thesis
    unfolding s' by (auto simp add: frame_def)
qed

lemma serial_invalid_kind_raises:
  assumes "(connected r \<and> serport r \<noteq> None) \<or> (\<not> connected r \<and> ser_open io = None)"
    and "drain_passes py io"
    and "\<not> gate_closed (ser_time io) (self r)"
    and "packettype p \<notin> set [''ALL'', ''UPDATE'', ''METADATA'']"
  shows "\<exists>r'. PyNBP_step py io p r =
                Raise (ValueError (''Unrecognize ptype: '' @ packettype p)) r'"
proof -
  obtain r1 where s: "PyNBP_step py io p r = PyNBP_try py io p r1"
    and f: "frame (r\<lparr>self := merge_payload (self r) p\<rparr>) r1" and c: "serport r1 \<noteq> None"
    using serial_reaches_try [OF assms(1)] by blast
  obtain r2 where d: "PyNBP_drain py io r1 = Normal r2" and f2: "frame r1 r2"
    using drain_Normal [OF c assms(2)] by blast
  have g: "\<not> ser_time io - last_update_time (self r2) < min_update_interval (self r2)"
    using f f2 assms(3) by (simp add: frame_def gate_closed_def merge_payload_fields)
  show ?thesis
    unfolding s using d g assms(4)
    by (simp add: PyNBP_try_def PyNBP_send_def then_do_def try_except_def genpacket_invalid)
qed

lemma socket_invalid_kind_swallowed:
  assumes "connected r \<or> (\<exists>a. sock_accept io = Inr a)"
    and "request_passes py io"
    and "\<not> gate_closed (sock_time io) (self r)"
    and "packettype p \<notin> set [''ALL'', ''UPDATE'', ''METADATA'']"
  shows "\<exists>r1. WifiPyNBP_step py io p r =
                Normal ((emit Close (log_event ERROR ''Wifi Write Failed. Closing port.'' r1))
                          \<lparr>connected := False\<rparr>)"
proof -
  obtain r1 where s: "WifiPyNBP_step py io p r =
                then_do (WifiPyNBP_try_request py io r1) (WifiPyNBP_try_send py io p)"
    and f: "frame (r\<lparr>self := merge_payload (self r) p\<rparr>) r1"
    using wifi_reaches_request [OF assms(1)] by blast
  obtain r2 where q: "WifiPyNBP_try_request py io r1 = Normal r2"
    using request_Normal [OF assms(2)] by blast
  have r2: "self r2 = self r1" using request_self [of py io r1] q by simp
  have g: "\<not> gate_closed (sock_time io) (self r2)"
    using r2 f assms(3) by (simp add: frame_def gate_closed_def merge_payload_fields)
  have k: "genpacket py (self r2) (packettype p) =
             Inl (ValueError (''Unrecognize ptype: '' @ packettype p))"
    using assms(4) by (rule genpacket_invalid)
  have "WifiPyNBP_step py io p r =
          Normal ((emit Close (log_event ERROR ''Wifi Write Failed. Closing port.'' r2))
                    \<lparr>connected := False\<rparr>)"
    unfolding s q using wifi_send_encoding_fails [OF g k] by (simp add: then_do_def)
  then show ?thesis by blast
qed

lemma ascii_strip_request: "ascii_strip ''!ALL\<newline>'' = ''!ALL''"
  by (simp add: ascii_strip_def ascii_space_def)

lemma ascii_decode_request: "ascii_decode ''!ALL\<newline>'' = Inr ''!ALL\<newline>''"
  by (simp add: ascii_decode_def)

lemma serial_state_changes:
  assumes "self (state_of (PyNBP_step py io p r)) \<noteq> merge_payload (self r) p"
  shows "ser_write io = None \<and> \<not> gate_closed (ser_time io) (self r) \<and>
         (\<exists>pkt. genpacket py (merge_payload (self r) p) (packettype p) = Inr pkt \<and>
                writes (trace (state_of (PyNBP_step py io p r))) = writes (trace r) @ [pkt]) \<and>
         self (state_of (PyNBP_step py io p r)) =
           (merge_payload (self r) p)\<lparr>updatelist := [], last_update_time := ser_time_done io\<rparr>"
proof -
  let ?r0 = "r\<lparr>self := merge_payload (self r) p\<rparr>"
  from serial_step_shape [of r p py io] assms
  obtain r1 where f: "frame ?r0 r1" and s: "PyNBP_step py io p r = PyNBP_try py io p r1"
    by (auto simp add: frame_def)
  have m: "self r1 = merge_payload (self r) p" "writes (trace r1) = writes (trace r)"
    using f by (simp_all add: frame_def)
  from serial_try_self [of py io p r1] assms s m
  have "ser_write io = None \<and> \<not> gate_closed (ser_time io) (self r1) \<and> drain_passes py io \<and>
    (\<exists>pkt r'. genpacket py (self r1) (packettype p) = Inr pkt \<and>
       PyNBP_try py io p r1 = Normal r' \<and>
       self r' = (self r1)\<lparr>updatelist := [], last_update_time := ser_time_done io\<rparr> \<and>
       writes (trace r') = writes (trace r1) @ [pkt])"
    by auto
  then show ?thesis
    unfolding s using m by (auto simp add: gate_closed_def merge_payload_fields)
qed

lemma socket_state_changes:
  assumes "self (state_of (WifiPyNBP_step py io p r)) \<noteq> merge_payload (self r) p"
  shows "sock_sendall io = None \<and> \<not> gate_closed (sock_time io) (self r) \<and>
         (\<exists>pkt ws. genpacket py (merge_payload (self r) p) (packettype p) = Inr pkt \<and>
                writes (trace (state_of (WifiPyNBP_step py io p r))) = writes (trace r) @ ws @ [pkt] \<and>
                (ws = [] \<or> ws = [all_packet py (merge_payload (self r) p)])) \<and>
         self (state_of (WifiPyNBP_step py io p r)) =
           (merge_payload (self r) p)\<lparr>updatelist := [], last_update_time := sock_time_done io\<rparr>"
proof -
  let ?r0 = "r\<lparr>self := merge_payload (self r) p\<rparr>"
  from wifi_step_shape [of r p py io] assms
  obtain r1 where f: "frame ?r0 r1"
    and s: "WifiPyNBP_step py io p r =
              then_do (WifiPyNBP_try_request py io r1) (WifiPyNBP_try_send py io p)"
    by (auto simp add: frame_def)
  have m: "self r1 = merge_payload (self r) p" "writes (trace r1) = writes (trace r)"
    using f by (simp_all add: frame_def)
  let ?q = "WifiPyNBP_try_request py io r1"
  have q: "self (state_of ?q) = self r1"
    "writes (trace (state_of ?q)) = writes (trace r1) \<or>
     writes (trace (state_of ?q)) = writes (trace r1) @ [all_packet py (self r1)]"
    using request_self [of py io r1] by simp_all
  obtain r2 where n: "?q = Normal r2"
    using assms s q(1) m(1) by (cases ?q) (simp_all add: then_do_def)
  have s': "WifiPyNBP_step py io p r = WifiPyNBP_try_send py io p r2"
    using s n by (simp add: then_do_def)
  have r2: "self r2 = merge_payload (self r) p"
    "writes (trace r2) = writes (trace r) \<or>
     writes (trace r2) = writes (trace r) @ [all_packet py (merge_payload (self r) p)]"
    using q n m by simp_all
  from wifi_send_self [of py io p r2] assms s' r2(1)
  have "sock_sendall io = None \<and> \<not> gate_closed (sock_time io) (self r2) \<and>
    (\<exists>pkt r'. genpacket py (self r2) (packettype p) = Inr pkt \<and>
       WifiPyNBP_try_send py io p r2 = Normal r' \<and>
       self r' = (self r2)\<lparr>updatelist := [], last_update_time := sock_time_done io\<rparr> \<and>
       writes (trace r') = writes (trace r2) @ [pkt])"
    by auto
  then show ?thesis
    unfolding s' using r2 by (auto simp add: gate_closed_def merge_payload_fields)
qed

lemma pending_after_emission:
  fixes s :: "('t, 'v) BasePyNBP" and d :: rat and p2 :: "('t, 'v) NbpPayload"
  defines "m2 \<equiv> merge_payload (s\<lparr>updatelist := [], last_update_time := d\<rparr>) p2"
  shows "updatelist m2 = first_seen (map name (nbpkpilist p2))"
    and "nbpkpilist p2 \<noteq> [] \<Longrightarrow>
         \<exists>ks. map Some ks = map (map_of (kpis m2)) (first_seen (map name (nbpkpilist p2))) \<and>
              genpacket py m2 ''UPDATE'' =
                Inr (''*'' @ protocol_version s @ '',UPDATE,'' @ format_6f py (timestamp p2) @ ''\<newline>''
                     @ concat (map (kpi_line (format_plain py)) ks) @ ''#\<newline>\<newline>'')"
proof -
  show u: "updatelist m2 = first_seen (map name (nbpkpilist p2))"
    by (simp add: m2_def merge_payload_def merge_kpis_updatelist add_new_first_seen)
  have inv: "set (updatelist m2) \<subseteq> fst ` set (kpis m2)"
    unfolding m2_def by (rule merge_payload_pending) simp
  assume ne: "nbpkpilist p2 \<noteq> []"
  then have ne': "updatelist m2 \<noteq> []"
    unfolding u by (cases "nbpkpilist p2") simp_all
  let ?ks = "List.map_filter (map_of (kpis m2)) (updatelist m2)"
  have "map Some ?ks = map (map_of (kpis m2)) (first_seen (map name (nbpkpilist p2)))"
    using map_filter_present [OF inv] by (simp add: u)
  moreover have "genpacket py m2 ''UPDATE'' =
      Inr (''*'' @ protocol_version s @ '',UPDATE,'' @ format_6f py (timestamp p2) @ ''\<newline>''
           @ concat (map (kpi_line (format_plain py)) ?ks) @ ''#\<newline>\<newline>'')"
    using inv ne'
    by (simp add: genpacket_def getitems_present genlines_concat str_encode_def)
       (simp add: m2_def merge_payload_fields)
  ultimately show "\<exists>ks. map Some ks = map (map_of (kpis m2)) (first_seen (map name (nbpkpilist p2))) \<and>
              genpacket py m2 ''UPDATE'' =
                Inr (''*'' @ protocol_version s @ '',UPDATE,'' @ format_6f py (timestamp p2) @ ''\<newline>''
                     @ concat (map (kpi_line (format_plain py)) ks) @ ''#\<newline>\<newline>'')"
    by blast
qed

lemma genpacket_METADATA:
  "genpacket py s ''METADATA'' = Inr (''@NAME:'' @ device_name s @ ''\<newline>\<newline>'')"
  by (simp add: genpacket_def metadata_def str_encode_def)

lemma str_int_more: "str_int 15 = ''15''" "str_int 16 = ''16''" "str_int 152 = ''152''"
  by (simp_all add: str_int_def str_nat.simps)

subsection \<open>Exceptions of the transport\<close>









subsection \<open>The pending names are names of the table\<close>

lemma serial_step_pending:
  assumes "set (updatelist (self r)) \<subseteq> fst ` set (kpis (self r))"
  shows "set (updatelist (self (state_of (PyNBP_step py io p r))))
           \<subseteq> fst ` set (kpis (self (state_of (PyNBP_step py io p r))))"
proof (cases "self (state_of (PyNBP_step py io p r)) = merge_payload (self r) p")
  case True
  then show ?thesis using merge_payload_pending [OF assms] by simp
next
  case False
  from serial_state_changes [OF this] show ?thesis by simp
qed

lemma socket_step_pending:
  assumes "set (updatelist (self r)) \<subseteq> fst ` set (kpis (self r))"
  shows "set (updatelist (self (state_of (WifiPyNBP_step py io p r))))
           \<subseteq> fst ` set (kpis (self (state_of (WifiPyNBP_step py io p r))))"
proof (cases "self (state_of (WifiPyNBP_step py io p r)) = merge_payload (self r) p")
  case True
  then show ?thesis using merge_payload_pending [OF assms] by simp
next
  case False
  from socket_state_changes [OF this] show ?thesis by simp
qed

lemma serial_run_pending:
  assumes "set (updatelist (self r)) \<subseteq> fst ` set (kpis (self r))"
  shows "set (updatelist (self (state_of (PyNBP_run py r inputs))))
           \<subseteq> fst ` set (kpis (self (state_of (PyNBP_run py r inputs))))"
  using assms
proof (induction inputs arbitrary: r)
  case Nil
  then show ?case by simp
next
  case (Cons a inputs)
  obtain p io where a: "a = (p, io)" by (cases a)
  from serial_step_pending [OF Cons.prems, of py io p] Cons.IH show ?case
    unfolding a by (cases "PyNBP_step py io p r") simp_all
qed

lemma socket_run_pending:
  assumes "set (updatelist (self r)) \<subseteq> fst ` set (kpis (self r))"
  shows "set (updatelist (self (state_of (WifiPyNBP_run py r inputs))))
           \<subseteq> fst ` set (kpis (self (state_of (WifiPyNBP_run py r inputs))))"
  using assms
proof (induction inputs arbitrary: r)
  case Nil
  then show ?case by simp
next
  case (Cons a inputs)
  obtain p io where a: "a = (p, io)" by (cases a)
  from socket_step_pending [OF Cons.prems, of py io p] Cons.IH show ?case
    unfolding a by (cases "WifiPyNBP_step py io p r") simp_all
qed

lemma started_runs_pending:
  "set (updatelist (self (state_of (PyNBP_run py (PyNBP_start (BasePyNBP_init dn pv mui)) inputs))))
     \<subseteq> fst ` set (kpis (self (state_of (PyNBP_run py (PyNBP_start (BasePyNBP_init dn pv mui)) inputs))))"
  "set (updatelist (self (state_of (WifiPyNBP_run py (WifiPyNBP_start (BasePyNBP_init dn pv mui)) inputs'))))
     \<subseteq> fst ` set (kpis (self (state_of (WifiPyNBP_run py (WifiPyNBP_start (BasePyNBP_init dn pv mui)) inputs'))))"
  by (rule serial_run_pending, simp add: PyNBP_start_def BasePyNBP_init_def)
     (rule socket_run_pending, simp add: WifiPyNBP_start_def BasePyNBP_init_def)





section \<open>The claims\<close>

text \<open>
  Claim C1. The payloads of any sequence, merged in order into the state the
  constructor builds (empty table, empty pending list), leave a table that is the
  last-write-wins merge by name of all their KPI lists, kept in the order in which the
  names were first seen; a pending list holding every name that occurred exactly once,
  in first-seen order; and, when the sequence is not empty, the timestamp of the last
  payload as \<^verbatim>\<open>packettime\<close>.
\<close>

theorem merge_sequence:
  fixes ps :: "('t::zero, 'v) NbpPayload list"
  shows "let s = merge_all (BasePyNBP_init dn pv mui) ps;
             every = concat (map nbpkpilist ps)
         in map_of (kpis s) = last_write every
          \<and> map fst (kpis s) = first_seen (map name every)
          \<and> updatelist s = first_seen (map name every)
          \<and> distinct (updatelist s)
          \<and> set (updatelist s) = name ` set every
          \<and> (ps \<noteq> [] \<longrightarrow> packettime s = timestamp (last ps))"
proof -
  define s where "s = merge_all (BasePyNBP_init dn pv mui :: ('t, 'v) BasePyNBP) ps"
  define every where "every = concat (map nbpkpilist ps)"
  have u: "updatelist s = first_seen (map name every)"
    unfolding s_def every_def
    by (simp add: merge_all_updatelist add_new_first_seen BasePyNBP_init_def)
  have k: "map fst (kpis s) = first_seen (map name every)"
    unfolding s_def every_def
    by (simp add: merge_all_keys add_new_first_seen BasePyNBP_init_def)
  have m: "map_of (kpis s) n = last_write every n" for n
    unfolding s_def every_def
    by (simp add: merge_all_map_of BasePyNBP_init_def split: option.splits)
  have t: "ps \<noteq> [] \<longrightarrow> packettime s = timestamp (last ps)"
    unfolding s_def by (simp add: merge_all_packettime)
  from m have "map_of (kpis s) = last_write every" by (rule ext)
  with u k t show ?thesis
    unfolding Let_def s_def [symmetric] every_def [symmetric]
    by (simp add: first_seen_distinct first_seen_set)
qed

theorem merge_sequence_witness:
  "[rpm_afr, oil] \<noteq> []
   \<and> (let s = merge_all (BasePyNBP_init ''PyNBP'' ''NBP1'' 0.2) [rpm_afr, oil]
      in packettime s = 13
       \<and> updatelist s = [''RPM'', ''AFR'', ''OIL'']
       \<and> map fst (kpis s) = [''RPM'', ''AFR'', ''OIL'']
       \<and> map_of (kpis s) ''AFR'' = Some (NbpKPI ''AFR'' [] 151)
       \<and> map_of (kpis s) ''AFR'' =
           last_write (nbpkpilist rpm_afr @ nbpkpilist oil) ''AFR'')"
  using merge_sequence [of "''PyNBP''" "''NBP1''" "0.2" "[rpm_afr, oil]"]
  by (simp add: Let_def rpm_afr_def oil_def last_write_def)

text \<open>
  Claim C2. A packet of kind ALL or UPDATE is the header line
  \<^verbatim>\<open>*<protocol_version>,<kind>,<timestamp>\<close> with the timestamp formatted by
  \<^verbatim>\<open>{:.6f}\<close> and a newline, then one line per selected KPI (with the unit in
  quotes when it is not empty, without it otherwise, the value formatted by
  \<^verbatim>\<open>{}\<close>), then \<^verbatim>\<open>#\<close> and two newlines, as one byte sequence. The pending
  names are names of the table, as they are in every state the loops reach.
\<close>

theorem packet_layout:
  assumes "kind = ''ALL'' \<or> kind = ''UPDATE''"
    and "set (updatelist s0) \<subseteq> fst ` set (kpis s0)"
  shows "genpacket py s0 kind =
           Inr (''*'' @ protocol_version s0 @ '','' @ kind @ '','' @ format_6f py (packettime s0) @ ''\<newline>''
                @ concat (map (kpi_line (format_plain py)) (selected s0 kind))
                @ ''#\<newline>\<newline>'')"
  using assms
  by (auto simp add: genpacket_def selected_def getitems_present genlines_concat
        str_encode_def dict_values_def)

theorem packet_layout_witness:
  \<open>(''UPDATE'' = ''ALL'' \<or> ''UPDATE'' = ''UPDATE'')
   \<and> set (updatelist rpm_afr_state) \<subseteq> fst ` set (kpis rpm_afr_state)
   \<and> genpacket int_builtins rpm_afr_state ''UPDATE'' =
       Inr ''*NBP1,UPDATE,12.000000\<newline>"RPM","rpm":4600\<newline>"AFR":147\<newline>#\<newline>\<newline>''\<close>
proof -
  have h1: "''UPDATE'' = ''ALL'' \<or> ''UPDATE'' = ''UPDATE''" by simp
  have h2: "set (updatelist rpm_afr_state) \<subseteq> fst ` set (kpis rpm_afr_state)"
    by (simp add: rpm_afr_state_eq)
  show ?thesis
    using h2 packet_layout [OF h1 h2, of int_builtins]
    by (simp add: rpm_afr_state_eq selected_def List.map_filter_simps kpi_line_def
        int_builtins_def str_int_samples)
qed

text \<open>
  Claim C3. A packet of kind UPDATE carries, when the pending list is not empty, the
  table's entries of the pending names, entry by entry in the order of that list;
  when the pending list is empty it carries the whole table in table order, and
  its body is the body of the ALL packet of the same state.
\<close>

theorem update_selection:
  assumes "set (updatelist s0) \<subseteq> fst ` set (kpis s0)"
  shows "(updatelist s0 \<noteq> [] \<longrightarrow>
            (\<exists>ks. map Some ks = map (map_of (kpis s0)) (updatelist s0) \<and>
                  genpacket py s0 ''UPDATE'' =
                    Inr (''*'' @ protocol_version s0 @ '',UPDATE,'' @ format_6f py (packettime s0) @ ''\<newline>''
                         @ concat (map (kpi_line (format_plain py)) ks) @ ''#\<newline>\<newline>'')))
       \<and> (updatelist s0 = [] \<longrightarrow>
            (\<exists>body. body = concat (map (kpi_line (format_plain py)) (dict_values (kpis s0))) @ ''#\<newline>\<newline>'' \<and>
                  genpacket py s0 ''UPDATE'' =
                    Inr (''*'' @ protocol_version s0 @ '',UPDATE,'' @ format_6f py (packettime s0) @ ''\<newline>'' @ body) \<and>
                  genpacket py s0 ''ALL'' =
                    Inr (''*'' @ protocol_version s0 @ '',ALL,'' @ format_6f py (packettime s0) @ ''\<newline>'' @ body)))"
proof (intro conjI impI)
  assume ne: "updatelist s0 \<noteq> []"
  let ?ks = "List.map_filter (map_of (kpis s0)) (updatelist s0)"
  have "map Some ?ks = map (map_of (kpis s0)) (updatelist s0)"
    using assms by (rule map_filter_present)
  moreover have "genpacket py s0 ''UPDATE'' =
      Inr (''*'' @ protocol_version s0 @ '',UPDATE,'' @ format_6f py (packettime s0) @ ''\<newline>''
           @ concat (map (kpi_line (format_plain py)) ?ks) @ ''#\<newline>\<newline>'')"
    using assms ne by (simp add: genpacket_def getitems_present genlines_concat str_encode_def)
  ultimately show "\<exists>ks. map Some ks = map (map_of (kpis s0)) (updatelist s0) \<and>
                  genpacket py s0 ''UPDATE'' =
                    Inr (''*'' @ protocol_version s0 @ '',UPDATE,'' @ format_6f py (packettime s0) @ ''\<newline>''
                         @ concat (map (kpi_line (format_plain py)) ks) @ ''#\<newline>\<newline>'')"
    by blast
next
  assume "updatelist s0 = []"
  then show "\<exists>body. body = concat (map (kpi_line (format_plain py)) (dict_values (kpis s0))) @ ''#\<newline>\<newline>'' \<and>
                  genpacket py s0 ''UPDATE'' =
                    Inr (''*'' @ protocol_version s0 @ '',UPDATE,'' @ format_6f py (packettime s0) @ ''\<newline>'' @ body) \<and>
                  genpacket py s0 ''ALL'' =
                    Inr (''*'' @ protocol_version s0 @ '',ALL,'' @ format_6f py (packettime s0) @ ''\<newline>'' @ body)"
    by (simp add: genpacket_def genlines_concat str_encode_def)
qed

theorem update_selection_witness:
  \<open>set (updatelist rpm_afr_state) \<subseteq> fst ` set (kpis rpm_afr_state)
   \<and> updatelist rpm_afr_state \<noteq> []
   \<and> genpacket int_builtins (rpm_afr_state\<lparr>updatelist := [''AFR'']\<rparr>) ''UPDATE'' =
       Inr ''*NBP1,UPDATE,12.000000\<newline>"AFR":147\<newline>#\<newline>\<newline>''
   \<and> genpacket int_builtins (rpm_afr_state\<lparr>updatelist := []\<rparr>) ''UPDATE'' =
       Inr ''*NBP1,UPDATE,12.000000\<newline>"RPM","rpm":4600\<newline>"AFR":147\<newline>#\<newline>\<newline>''
   \<and> genpacket int_builtins (rpm_afr_state\<lparr>updatelist := []\<rparr>) ''ALL'' =
       Inr ''*NBP1,ALL,12.000000\<newline>"RPM","rpm":4600\<newline>"AFR":147\<newline>#\<newline>\<newline>''\<close>
proof -
  have h: "set (updatelist rpm_afr_state) \<subseteq> fst ` set (kpis rpm_afr_state)"
    by (simp add: rpm_afr_state_eq)
  have h1: "set (updatelist (rpm_afr_state\<lparr>updatelist := [''AFR'']\<rparr>))
              \<subseteq> fst ` set (kpis (rpm_afr_state\<lparr>updatelist := [''AFR'']\<rparr>))"
    by (simp add: rpm_afr_state_eq)
  have h0: "set (updatelist (rpm_afr_state\<lparr>updatelist := []\<rparr>))
              \<subseteq> fst ` set (kpis (rpm_afr_state\<lparr>updatelist := []\<rparr>))"
    by simp
  have ks: "map Some ks = [Some (NbpKPI ''AFR'' [] (147::int))] \<longleftrightarrow> ks = [NbpKPI ''AFR'' [] 147]" for ks
    by (cases ks) auto
  show ?thesis
    using h update_selection [OF h1, of int_builtins] update_selection [OF h0, of int_builtins]
    by (auto simp add: rpm_afr_state_eq kpi_line_def dict_values_def
        int_builtins_def str_int_samples ks)
qed

text \<open>
  Claim C4. The encoder fails exactly on a kind that is none of ALL, UPDATE and
  METADATA, and that error is not swallowed by the loops but leaves them. The serial
  loop lets the \<^verbatim>\<open>ValueError\<close> pass; the socket loop catches it in
  \<^verbatim>\<open>except Exception\<close>, logs a failed write, closes the connection and goes on.
  Here on a payload of kind \<^verbatim>\<open>BOGUS\<close>, with a connection and an open gate.
\<close>

theorem invalid_kind_swallowed:
  "genpacket int_builtins (merge_payload rpm_afr_state bogus) (packettype bogus) =
     Inl (ValueError ''Unrecognize ptype: BOGUS'')
   \<and> (\<exists>r'. PyNBP_step int_builtins (serial_ok 1000 1000) bogus serial_connected =
            Raise (ValueError ''Unrecognize ptype: BOGUS'') r')
   \<and> WifiPyNBP_step int_builtins (socket_ok 1000 1000) bogus socket_connected =
       Normal \<lparr>self = merge_payload rpm_afr_state bogus, connected = False,
               trace = [Log ERROR ''Wifi Write Failed. Closing port.'', Close]\<rparr>"
proof -
  have k: "packettype bogus \<notin> set [''ALL'', ''UPDATE'', ''METADATA'']"
    by (simp add: bogus_def)
  have "genpacket int_builtins (merge_payload rpm_afr_state bogus) (packettype bogus) =
     Inl (ValueError ''Unrecognize ptype: BOGUS'')"
    using genpacket_invalid [OF k] by (simp add: bogus_def)
  moreover have "\<exists>r'. PyNBP_step int_builtins (serial_ok 1000 1000) bogus serial_connected =
            Raise (ValueError ''Unrecognize ptype: BOGUS'') r'"
    using serial_invalid_kind_raises [of serial_connected "serial_ok 1000 1000" int_builtins bogus] k
    by (simp add: serial_connected_def serial_ok_def drain_passes_def gate_closed_def
        rpm_afr_state_eq bogus_def)
  moreover have "WifiPyNBP_step int_builtins (socket_ok 1000 1000) bogus socket_connected =
       Normal \<lparr>self = merge_payload rpm_afr_state bogus, connected = False,
               trace = [Log ERROR ''Wifi Write Failed. Closing port.'', Close]\<rparr>"
    using k
    by (simp add: WifiPyNBP_step_def WifiPyNBP_accept_def WifiPyNBP_try_request_def
        WifiPyNBP_request_def WifiPyNBP_try_send_def WifiPyNBP_send_def WifiPyNBP_handler_def
        then_do_def try_except_def socket_connected_def socket_ok_def merge_payload_fields
        rpm_afr_state_eq genpacket_invalid log_event_def emit_def)
  ultimately show ?thesis by simp
qed

text \<open>
  Claim C5. In the serial broadcaster an iteration that starts disconnected and
  fails to open the device logs, stays disconnected, merges the payload and skips the
  rest of the body without raising; in particular the first iteration after a failed
  open reaches the next dequeue. The code does not do this on the first iteration:
  \<^verbatim>\<open>serport\<close> is still \<^verbatim>\<open>None\<close>, the test on line 121 reads
  \<^verbatim>\<open>serport.is_open\<close>, and the \<^verbatim>\<open>AttributeError\<close> leaves the loop, whatever the
  payload, the state and the other outcomes of the transport are.
\<close>

theorem first_open_failure:
  "PyNBP_step py (io\<lparr>ser_open := Some SerialException\<rparr>) p (PyNBP_start s) =
     Raise (AttributeError ''is_open'')
       (log_event INFO ''Comm Port conection not open - waiting for connection''
          ((PyNBP_start s)\<lparr>self := merge_payload s p\<rparr>))
   \<and> PyNBP_run py (PyNBP_start s) ((p, io\<lparr>ser_open := Some SerialException\<rparr>) # rest) =
     Raise (AttributeError ''is_open'')
       (log_event INFO ''Comm Port conection not open - waiting for connection''
          ((PyNBP_start s)\<lparr>self := merge_payload s p\<rparr>))"
  by (simp add: PyNBP_step_def PyNBP_open_def PyNBP_skip_def then_do_def try_except_def
      log_event_def PyNBP_start_def)




text \<open>
  Claim C7. In the socket broadcaster, when a client is connected and the bytes
  received, decoded and stripped, are \<^verbatim>\<open>!ALL\<close>, the iteration hands the
  transport the ALL packet of the whole table, merged payload included, before any
  other write of the iteration. Nothing is assumed about the clock or the last
  emission: the gate does not apply.
\<close>

theorem all_request_answered:
  assumes client: "connected r \<or> (\<exists>a. sock_accept io = Inr a)"
    and data: "sock_recv io = Inr data" "data \<noteq> []"
    and tok: "bytes_decode py data = Inr decoded" "str_strip py decoded = ''!ALL''"
  shows "\<exists>pre post.
           writes pre = [] \<and>
           trace (state_of (WifiPyNBP_step py io p r)) =
             trace r @ pre @
             [Log WARNING ''ALL Packet Requested. Sending'',
              Write (all_packet py (merge_payload (self r) p))] @ post"
proof -
  let ?m = "merge_payload (self r) p"
  let ?req = "[Log WARNING ''ALL Packet Requested. Sending'', Write (all_packet py ?m)]"
  obtain pre r1 where acc: "WifiPyNBP_accept io (r\<lparr>self := ?m\<rparr>) = Normal r1"
    and r1: "connected r1" "self r1 = ?m" "trace r1 = trace r @ pre" "writes pre = []"
    using client
    by (cases "connected r") (auto simp add: WifiPyNBP_accept_def try_except_def log_event_def)
  obtain out where req: "WifiPyNBP_try_request py io r1 = out"
    and out: "trace (state_of out) = trace r1 @ [Log INFO ''!ALL''] @ ?req"
    using data tok r1
    by (auto simp add: WifiPyNBP_try_request_def WifiPyNBP_request_def try_except_def
        log_event_def emit_def genpacket_ALL Let_def split: option.splits)
  have send: "\<exists>post. trace (state_of (WifiPyNBP_try_send py io p r2)) = trace r2 @ post"
    for r2 :: "('a, 'b) run_state"
    by (auto simp add: WifiPyNBP_try_send_def WifiPyNBP_send_def WifiPyNBP_handler_def
        try_except_def log_event_def emit_def emitted_def Let_def
        split: sum.splits option.splits)
  have step: "WifiPyNBP_step py io p r = then_do out (WifiPyNBP_try_send py io p)"
    using acc r1 req by (simp add: WifiPyNBP_step_def then_do_def)
  have "\<exists>post. trace (state_of (WifiPyNBP_step py io p r)) = trace (state_of out) @ post"
    unfolding step using send [of "state_of out"]
    by (cases out) (auto simp add: then_do_def)
  then obtain post where "trace (state_of (WifiPyNBP_step py io p r)) = trace (state_of out) @ post"
    by blast
  with out r1 have "trace (state_of (WifiPyNBP_step py io p r)) =
      trace r @ (pre @ [Log INFO ''!ALL'']) @ ?req @ post"
    by simp
  moreover have "writes (pre @ [Log INFO ''!ALL'']) = []"
    using r1(4) by (simp add: writes_append)
  ultimately show ?thesis by blast
qed

theorem all_request_answered_witness:
  \<open>connected socket_connected
   \<and> gate_closed (sock_time (socket_ok 0.1 0.1)) (self socket_connected)
   \<and> (\<exists>pre post.
        writes pre = [] \<and>
        trace (state_of (WifiPyNBP_step int_builtins
                 ((socket_ok 0.1 0.1)\<lparr>sock_recv := Inr ''!ALL\<newline>''\<rparr>) oil socket_connected)) =
          [] @ pre @
          [Log WARNING ''ALL Packet Requested. Sending'',
           Write ''*NBP1,ALL,13.000000\<newline>"RPM","rpm":4600\<newline>"AFR":151\<newline>"OIL","psi":61\<newline>#\<newline>\<newline>'']
          @ post)\<close>
proof -
  let ?io = "(socket_ok 0.1 0.1)\<lparr>sock_recv := Inr ''!ALL\<newline>''\<rparr>"
  have c: "connected socket_connected \<or> (\<exists>a. sock_accept ?io = Inr a)"
    by (simp add: socket_connected_def)
  have d: "sock_recv ?io = Inr ''!ALL\<newline>''" "''!ALL\<newline>'' \<noteq> []"
    by simp_all
  have t: "bytes_decode int_builtins ''!ALL\<newline>'' = Inr ''!ALL\<newline>''"
    "str_strip int_builtins ''!ALL\<newline>'' = ''!ALL''"
    by (simp_all add: int_builtins_def ascii_decode_request ascii_strip_request)
  have pkt: \<open>all_packet int_builtins (merge_payload rpm_afr_state oil) =
     ''*NBP1,ALL,13.000000\<newline>"RPM","rpm":4600\<newline>"AFR":151\<newline>"OIL","psi":61\<newline>#\<newline>\<newline>''\<close>
    by (simp add: all_packet_def rpm_afr_state_eq oil_def merge_payload_def
        dict_values_def kpi_line_def int_builtins_def str_int_samples)
  have g: "gate_closed (sock_time (socket_ok 0.1 0.1)) (self socket_connected)"
    by (simp add: gate_closed_def socket_ok_def socket_connected_def rpm_afr_state_eq)
  show ?thesis
    using all_request_answered [OF c d t, of oil] g
    by (simp add: pkt socket_connected_def)
qed

text \<open>
  Claim C8. In both broadcasters, an iteration whose clock reading at the gate is less
  than \<^verbatim>\<open>min_update_interval\<close> after \<^verbatim>\<open>last_update_time\<close> writes no regular
  packet and leaves the state as the merge left it (in the socket broadcaster the only
  packet it can write is the reply to an \<^verbatim>\<open>!ALL\<close> request); an iteration with a
  connection that gets to the gate with the interval elapsed, on a payload whose packet
  encodes, writes that packet. With the interval 0.2: of two attempts 0.05 apart the first
  writes and the second does not, and an attempt 0.25 after the first writes again.
\<close>

theorem rate_gate:
  fixes r :: "('t, 'v) PyNBP_state" and w :: "('t, 'v) run_state"
  shows
    "(gate_closed (ser_time io) (self r) \<longrightarrow>
        self (state_of (PyNBP_step py io p r)) = merge_payload (self r) p \<and>
        writes (trace (state_of (PyNBP_step py io p r))) = writes (trace r))
   \<and> (gate_closed (sock_time so) (self w) \<longrightarrow>
        self (state_of (WifiPyNBP_step py so p w)) = merge_payload (self w) p \<and>
        (writes (trace (state_of (WifiPyNBP_step py so p w))) = writes (trace w) \<or>
         writes (trace (state_of (WifiPyNBP_step py so p w))) =
           writes (trace w) @ [all_packet py (merge_payload (self w) p)]))
   \<and> (((connected r \<and> serport r \<noteq> None) \<or> (\<not> connected r \<and> ser_open io = None)) \<and>
       drain_passes py io \<and> \<not> gate_closed (ser_time io) (self r) \<and>
       genpacket py (merge_payload (self r) p) (packettype p) = Inr pkt \<longrightarrow>
        writes (trace (state_of (PyNBP_step py io p r))) = writes (trace r) @ [pkt])
   \<and> ((connected w \<or> (\<exists>a. sock_accept so = Inr a)) \<and>
       request_passes py so \<and> \<not> gate_closed (sock_time so) (self w) \<and>
       genpacket py (merge_payload (self w) p) (packettype p) = Inr pkt \<longrightarrow>
        (\<exists>ws. writes (trace (state_of (WifiPyNBP_step py so p w))) = writes (trace w) @ ws @ [pkt]
             \<and> (ws = [] \<or> ws = [all_packet py (merge_payload (self w) p)])))
   \<and> (connected r \<and> serport r = Some port \<and> min_update_interval (self r) = 0.2 \<and>
       set (updatelist (self r)) \<subseteq> fst ` set (kpis (self r)) \<and>
       packettype p1 \<in> set [''ALL'', ''UPDATE'', ''METADATA''] \<and>
       packettype p3 \<in> set [''ALL'', ''UPDATE'', ''METADATA''] \<and>
       \<not> gate_closed t1 (self r) \<and> t1 \<le> d1 \<and> d1 \<le> t1 + 0.05 \<longrightarrow>
        (\<exists>pkt1 pkt3.
           writes (trace (state_of (PyNBP_run py r
              [(p1, serial_ok t1 d1), (p2, serial_ok (t1 + 0.05) d2)]))) =
             writes (trace r) @ [pkt1]
         \<and> writes (trace (state_of (PyNBP_run py r
              [(p1, serial_ok t1 d1), (p2, serial_ok (t1 + 0.05) d2),
               (p3, serial_ok (t1 + 0.25) d3)]))) =
             writes (trace r) @ [pkt1, pkt3]))
   \<and> (connected w \<and> min_update_interval (self w) = 0.2 \<and>
       set (updatelist (self w)) \<subseteq> fst ` set (kpis (self w)) \<and>
       packettype p1 \<in> set [''ALL'', ''UPDATE'', ''METADATA''] \<and>
       packettype p3 \<in> set [''ALL'', ''UPDATE'', ''METADATA''] \<and>
       \<not> gate_closed t1 (self w) \<and> t1 \<le> d1 \<and> d1 \<le> t1 + 0.05 \<longrightarrow>
        (\<exists>pkt1 pkt3.
           writes (trace (state_of (WifiPyNBP_run py w
              [(p1, socket_ok t1 d1), (p2, socket_ok (t1 + 0.05) d2)]))) =
             writes (trace w) @ [pkt1]
         \<and> writes (trace (state_of (WifiPyNBP_run py w
              [(p1, socket_ok t1 d1), (p2, socket_ok (t1 + 0.05) d2),
               (p3, socket_ok (t1 + 0.25) d3)]))) =
             writes (trace w) @ [pkt1, pkt3]))"
proof (intro conjI impI)
  assume "gate_closed (ser_time io) (self r)"
  from serial_gate_closed [OF this]
  show "self (state_of (PyNBP_step py io p r)) = merge_payload (self r) p"
    and "writes (trace (state_of (PyNBP_step py io p r))) = writes (trace r)"
    by simp_all
next
  assume "gate_closed (sock_time so) (self w)"
  from socket_gate_closed [OF this]
  show "self (state_of (WifiPyNBP_step py so p w)) = merge_payload (self w) p"
    and "writes (trace (state_of (WifiPyNBP_step py so p w))) = writes (trace w) \<or>
         writes (trace (state_of (WifiPyNBP_step py so p w))) =
           writes (trace w) @ [all_packet py (merge_payload (self w) p)]"
    by simp_all
next
  assume "((connected r \<and> serport r \<noteq> None) \<or> (\<not> connected r \<and> ser_open io = None)) \<and>
       drain_passes py io \<and> \<not> gate_closed (ser_time io) (self r) \<and>
       genpacket py (merge_payload (self r) p) (packettype p) = Inr pkt"
  then show "writes (trace (state_of (PyNBP_step py io p r))) = writes (trace r) @ [pkt]"
    using serial_gate_open [of r io py p pkt] by blast
next
  assume "(connected w \<or> (\<exists>a. sock_accept so = Inr a)) \<and>
       request_passes py so \<and> \<not> gate_closed (sock_time so) (self w) \<and>
       genpacket py (merge_payload (self w) p) (packettype p) = Inr pkt"
  then show "\<exists>ws. writes (trace (state_of (WifiPyNBP_step py so p w))) = writes (trace w) @ ws @ [pkt]
             \<and> (ws = [] \<or> ws = [all_packet py (merge_payload (self w) p)])"
    using socket_gate_open [of w so py p pkt] by blast
next
  assume "connected r \<and> serport r = Some port \<and> min_update_interval (self r) = 0.2 \<and>
       set (updatelist (self r)) \<subseteq> fst ` set (kpis (self r)) \<and>
       packettype p1 \<in> set [''ALL'', ''UPDATE'', ''METADATA''] \<and>
       packettype p3 \<in> set [''ALL'', ''UPDATE'', ''METADATA''] \<and>
       \<not> gate_closed t1 (self r) \<and> t1 \<le> d1 \<and> d1 \<le> t1 + 0.05"
  then show "\<exists>pkt1 pkt3.
           writes (trace (state_of (PyNBP_run py r
              [(p1, serial_ok t1 d1), (p2, serial_ok (t1 + 0.05) d2)]))) =
             writes (trace r) @ [pkt1]
         \<and> writes (trace (state_of (PyNBP_run py r
              [(p1, serial_ok t1 d1), (p2, serial_ok (t1 + 0.05) d2),
               (p3, serial_ok (t1 + 0.25) d3)]))) =
             writes (trace r) @ [pkt1, pkt3]"
    using serial_scenario [of r port p1 p3 t1 d1 py p2 d2 d3] by blast
next
  assume "connected w \<and> min_update_interval (self w) = 0.2 \<and>
       set (updatelist (self w)) \<subseteq> fst ` set (kpis (self w)) \<and>
       packettype p1 \<in> set [''ALL'', ''UPDATE'', ''METADATA''] \<and>
       packettype p3 \<in> set [''ALL'', ''UPDATE'', ''METADATA''] \<and>
       \<not> gate_closed t1 (self w) \<and> t1 \<le> d1 \<and> d1 \<le> t1 + 0.05"
  then show "\<exists>pkt1 pkt3.
           writes (trace (state_of (WifiPyNBP_run py w
              [(p1, socket_ok t1 d1), (p2, socket_ok (t1 + 0.05) d2)]))) =
             writes (trace w) @ [pkt1]
         \<and> writes (trace (state_of (WifiPyNBP_run py w
              [(p1, socket_ok t1 d1), (p2, socket_ok (t1 + 0.05) d2),
               (p3, socket_ok (t1 + 0.25) d3)]))) =
             writes (trace w) @ [pkt1, pkt3]"
    using socket_scenario [of w p1 p3 t1 d1 py p2 d2 d3] by blast
qed

theorem rate_gate_witness:
  "connected serial_connected \<and> serport serial_connected = Some (Serial True)
   \<and> connected socket_connected
   \<and> min_update_interval (self serial_connected) = 0.2
   \<and> min_update_interval (self socket_connected) = 0.2
   \<and> \<not> gate_closed 1000 (self serial_connected)
   \<and> gate_closed 0.1 (self serial_connected)
   \<and> self (state_of (PyNBP_step int_builtins (serial_ok 0.1 0.1) oil serial_connected)) =
       merge_payload rpm_afr_state oil
   \<and> writes (trace (state_of (PyNBP_step int_builtins (serial_ok 0.1 0.1) oil serial_connected))) = []
   \<and> (\<exists>pkt1 pkt3.
        writes (trace (state_of (PyNBP_run int_builtins serial_connected
           [(rpm_afr, serial_ok 1000 1000), (oil, serial_ok (1000 + 0.05) 1001)]))) = [pkt1]
      \<and> writes (trace (state_of (PyNBP_run int_builtins serial_connected
           [(rpm_afr, serial_ok 1000 1000), (oil, serial_ok (1000 + 0.05) 1001),
            (rpm_afr, serial_ok (1000 + 0.25) 1002)]))) = [pkt1, pkt3])
   \<and> (\<exists>pkt1 pkt3.
        writes (trace (state_of (WifiPyNBP_run int_builtins socket_connected
           [(rpm_afr, socket_ok 1000 1000), (oil, socket_ok (1000 + 0.05) 1001)]))) = [pkt1]
      \<and> writes (trace (state_of (WifiPyNBP_run int_builtins socket_connected
           [(rpm_afr, socket_ok 1000 1000), (oil, socket_ok (1000 + 0.05) 1001),
            (rpm_afr, socket_ok (1000 + 0.25) 1002)]))) = [pkt1, pkt3])"
proof -
  have h: "connected serial_connected" "serport serial_connected = Some (Serial True)"
    "connected socket_connected"
    "min_update_interval (self serial_connected) = 0.2"
    "min_update_interval (self socket_connected) = 0.2"
    "set (updatelist (self serial_connected)) \<subseteq> fst ` set (kpis (self serial_connected))"
    "set (updatelist (self socket_connected)) \<subseteq> fst ` set (kpis (self socket_connected))"
    "trace serial_connected = []" "trace socket_connected = []"
    "self serial_connected = rpm_afr_state"
    by (simp_all add: serial_connected_def socket_connected_def rpm_afr_state_eq)
  have g: "\<not> gate_closed 1000 (self serial_connected)" "gate_closed 0.1 (self serial_connected)"
    "\<not> gate_closed 1000 (self socket_connected)"
    "gate_closed (ser_time (serial_ok 0.1 0.1)) (self serial_connected)"
    by (simp_all add: gate_closed_def serial_connected_def socket_connected_def
        rpm_afr_state_eq serial_ok_def)
  have k: "packettype rpm_afr \<in> set [''ALL'', ''UPDATE'', ''METADATA'']"
    by (simp add: rpm_afr_def)
  note T = rate_gate [where r = serial_connected and w = socket_connected
        and py = int_builtins and io = "serial_ok 0.1 0.1" and p = oil
        and port = "Serial True" and ?p1.0 = rpm_afr and ?p2.0 = oil and ?p3.0 = rpm_afr
        and ?t1.0 = 1000 and ?d1.0 = 1000 and ?d2.0 = 1001 and ?d3.0 = 1002]
  have closed: "self (state_of (PyNBP_step int_builtins (serial_ok 0.1 0.1) oil serial_connected)) =
       merge_payload rpm_afr_state oil
     \<and> writes (trace (state_of (PyNBP_step int_builtins (serial_ok 0.1 0.1) oil serial_connected))) = []"
    using mp [OF T [THEN conjunct1] g(4)] by (simp only: h writes.simps)
  have p5: "connected serial_connected \<and> serport serial_connected = Some (Serial True) \<and>
       min_update_interval (self serial_connected) = 0.2 \<and>
       set (updatelist (self serial_connected)) \<subseteq> fst ` set (kpis (self serial_connected)) \<and>
       packettype rpm_afr \<in> set [''ALL'', ''UPDATE'', ''METADATA''] \<and>
       packettype rpm_afr \<in> set [''ALL'', ''UPDATE'', ''METADATA''] \<and>
       \<not> gate_closed 1000 (self serial_connected) \<and> (1000::rat) \<le> 1000 \<and> (1000::rat) \<le> 1000 + 0.05"
    using h g k by simp
  have p6: "connected socket_connected \<and>
       min_update_interval (self socket_connected) = 0.2 \<and>
       set (updatelist (self socket_connected)) \<subseteq> fst ` set (kpis (self socket_connected)) \<and>
       packettype rpm_afr \<in> set [''ALL'', ''UPDATE'', ''METADATA''] \<and>
       packettype rpm_afr \<in> set [''ALL'', ''UPDATE'', ''METADATA''] \<and>
       \<not> gate_closed 1000 (self socket_connected) \<and> (1000::rat) \<le> 1000 \<and> (1000::rat) \<le> 1000 + 0.05"
    using h g k by simp
  have serial: "\<exists>pkt1 pkt3.
        writes (trace (state_of (PyNBP_run int_builtins serial_connected
           [(rpm_afr, serial_ok 1000 1000), (oil, serial_ok (1000 + 0.05) 1001)]))) = [pkt1]
      \<and> writes (trace (state_of (PyNBP_run int_builtins serial_connected
           [(rpm_afr, serial_ok 1000 1000), (oil, serial_ok (1000 + 0.05) 1001),
            (rpm_afr, serial_ok (1000 + 0.25) 1002)]))) = [pkt1, pkt3]"
    using mp [OF T [THEN conjunct2, THEN conjunct2, THEN conjunct2, THEN conjunct2,
                    THEN conjunct1] p5]
    by (simp only: h writes.simps append_Nil)
  have socket: "\<exists>pkt1 pkt3.
        writes (trace (state_of (WifiPyNBP_run int_builtins socket_connected
           [(rpm_afr, socket_ok 1000 1000), (oil, socket_ok (1000 + 0.05) 1001)]))) = [pkt1]
      \<and> writes (trace (state_of (WifiPyNBP_run int_builtins socket_connected
           [(rpm_afr, socket_ok 1000 1000), (oil, socket_ok (1000 + 0.05) 1001),
            (rpm_afr, socket_ok (1000 + 0.25) 1002)]))) = [pkt1, pkt3]"
    using mp [OF T [THEN conjunct2, THEN conjunct2, THEN conjunct2, THEN conjunct2,
                    THEN conjunct2] p6]
    by (simp only: h writes.simps append_Nil)
  from h(1-5) g(1,2) closed serial socket show ?thesis
    by blast
qed

text \<open>
  Claim C9. A packet of kind METADATA is \<^verbatim>\<open>@NAME:\<close>, the device name and two
  newlines, nothing else, whatever the table, the pending list, the timestamp, the
  protocol version and the formatting are.
\<close>

theorem metadata_packet:
  "genpacket py (s0\<lparr>protocol_version := pv, packettime := t, kpis := d, updatelist := u\<rparr>) ''METADATA''
     = Inr (''@NAME:'' @ device_name s0 @ ''\<newline>\<newline>'')"
  by (simp add: genpacket_def metadata_def str_encode_def)

text \<open>
  Claim C10. The pending list is cleared and the time of the last emission recorded
  exactly when the regular, rate-gated write returns, for every packet kind: an
  iteration with a connection that gets through the gate, encodes and whose write
  returns ends in the merged state with an empty pending list and the clock reading
  after the write; an iteration that ends in any other state than the merged one has made
  that write. This holds for METADATA too, whose packet has no KPI line, so that the
  names pending before it are not pending after the next payload, and the next UPDATE
  packet has the lines of that payload's names only. The block that answers
  \<^verbatim>\<open>!ALL\<close> leaves \<^verbatim>\<open>self\<close> and the connection flag as they are.
\<close>

theorem emission_bookkeeping:
  fixes r :: "('t, 'v) PyNBP_state" and w :: "('t, 'v) run_state"
    and s :: "('t, 'v) BasePyNBP"
  shows
    "(((connected r \<and> serport r \<noteq> None) \<or> (\<not> connected r \<and> ser_open io = None)) \<and>
      drain_passes py io \<and> \<not> gate_closed (ser_time io) (self r) \<and>
      genpacket py (merge_payload (self r) p) (packettype p) = Inr pkt \<and> ser_write io = None \<longrightarrow>
        self (state_of (PyNBP_step py io p r)) =
          (merge_payload (self r) p)\<lparr>updatelist := [], last_update_time := ser_time_done io\<rparr>)
   \<and> (self (state_of (PyNBP_step py io p r)) \<noteq> merge_payload (self r) p \<longrightarrow>
        ser_write io = None \<and> \<not> gate_closed (ser_time io) (self r) \<and>
        (\<exists>pkt. genpacket py (merge_payload (self r) p) (packettype p) = Inr pkt \<and>
               writes (trace (state_of (PyNBP_step py io p r))) = writes (trace r) @ [pkt]) \<and>
        self (state_of (PyNBP_step py io p r)) =
          (merge_payload (self r) p)\<lparr>updatelist := [], last_update_time := ser_time_done io\<rparr>)
   \<and> ((connected w \<or> (\<exists>a. sock_accept so = Inr a)) \<and> request_passes py so \<and>
      \<not> gate_closed (sock_time so) (self w) \<and>
      genpacket py (merge_payload (self w) p) (packettype p) = Inr pkt \<and> sock_sendall so = None \<longrightarrow>
        self (state_of (WifiPyNBP_step py so p w)) =
          (merge_payload (self w) p)\<lparr>updatelist := [], last_update_time := sock_time_done so\<rparr>)
   \<and> (self (state_of (WifiPyNBP_step py so p w)) \<noteq> merge_payload (self w) p \<longrightarrow>
        sock_sendall so = None \<and> \<not> gate_closed (sock_time so) (self w) \<and>
        (\<exists>pkt ws. genpacket py (merge_payload (self w) p) (packettype p) = Inr pkt \<and>
               writes (trace (state_of (WifiPyNBP_step py so p w))) = writes (trace w) @ ws @ [pkt] \<and>
               (ws = [] \<or> ws = [all_packet py (merge_payload (self w) p)])) \<and>
        self (state_of (WifiPyNBP_step py so p w)) =
          (merge_payload (self w) p)\<lparr>updatelist := [], last_update_time := sock_time_done so\<rparr>)
   \<and> genpacket py s ''METADATA'' = Inr (''@NAME:'' @ device_name s @ ''\<newline>\<newline>'')
   \<and> updatelist (merge_payload (s\<lparr>updatelist := [], last_update_time := d\<rparr>) p2) =
       first_seen (map name (nbpkpilist p2))
   \<and> (nbpkpilist p2 \<noteq> [] \<longrightarrow>
        (\<exists>ks. map Some ks =
                map (map_of (kpis (merge_payload (s\<lparr>updatelist := [], last_update_time := d\<rparr>) p2)))
                  (first_seen (map name (nbpkpilist p2))) \<and>
              genpacket py (merge_payload (s\<lparr>updatelist := [], last_update_time := d\<rparr>) p2) ''UPDATE'' =
                Inr (''*'' @ protocol_version s @ '',UPDATE,'' @ format_6f py (timestamp p2) @ ''\<newline>''
                     @ concat (map (kpi_line (format_plain py)) ks) @ ''#\<newline>\<newline>'')))
   \<and> self (state_of (WifiPyNBP_try_request py so w)) = self w
   \<and> connected (state_of (WifiPyNBP_try_request py so w)) = connected w"
proof (intro conjI impI)
  assume "((connected r \<and> serport r \<noteq> None) \<or> (\<not> connected r \<and> ser_open io = None)) \<and>
      drain_passes py io \<and> \<not> gate_closed (ser_time io) (self r) \<and>
      genpacket py (merge_payload (self r) p) (packettype p) = Inr pkt \<and> ser_write io = None"
  then show "self (state_of (PyNBP_step py io p r)) =
          (merge_payload (self r) p)\<lparr>updatelist := [], last_update_time := ser_time_done io\<rparr>"
    using serial_gate_open [of r io py p pkt] by blast
next
  assume a: "self (state_of (PyNBP_step py io p r)) \<noteq> merge_payload (self r) p"
  from serial_state_changes [OF a]
  show "ser_write io = None" and "\<not> gate_closed (ser_time io) (self r)"
    and "\<exists>pkt. genpacket py (merge_payload (self r) p) (packettype p) = Inr pkt \<and>
               writes (trace (state_of (PyNBP_step py io p r))) = writes (trace r) @ [pkt]"
    and "self (state_of (PyNBP_step py io p r)) =
          (merge_payload (self r) p)\<lparr>updatelist := [], last_update_time := ser_time_done io\<rparr>"
    by blast+
next
  assume "(connected w \<or> (\<exists>a. sock_accept so = Inr a)) \<and> request_passes py so \<and>
      \<not> gate_closed (sock_time so) (self w) \<and>
      genpacket py (merge_payload (self w) p) (packettype p) = Inr pkt \<and> sock_sendall so = None"
  then show "self (state_of (WifiPyNBP_step py so p w)) =
          (merge_payload (self w) p)\<lparr>updatelist := [], last_update_time := sock_time_done so\<rparr>"
    using socket_gate_open [of w so py p pkt] by blast
next
  assume a: "self (state_of (WifiPyNBP_step py so p w)) \<noteq> merge_payload (self w) p"
  from socket_state_changes [OF a]
  show "sock_sendall so = None" and "\<not> gate_closed (sock_time so) (self w)"
    and "\<exists>pkt ws. genpacket py (merge_payload (self w) p) (packettype p) = Inr pkt \<and>
               writes (trace (state_of (WifiPyNBP_step py so p w))) = writes (trace w) @ ws @ [pkt] \<and>
               (ws = [] \<or> ws = [all_packet py (merge_payload (self w) p)])"
    and "self (state_of (WifiPyNBP_step py so p w)) =
          (merge_payload (self w) p)\<lparr>updatelist := [], last_update_time := sock_time_done so\<rparr>"
    by blast+
next
  show "genpacket py s ''METADATA'' = Inr (''@NAME:'' @ device_name s @ ''\<newline>\<newline>'')"
    by (rule genpacket_METADATA)
next
  show "updatelist (merge_payload (s\<lparr>updatelist := [], last_update_time := d\<rparr>) p2) =
       first_seen (map name (nbpkpilist p2))"
    by (rule pending_after_emission(1))
next
  assume "nbpkpilist p2 \<noteq> []"
  then show "\<exists>ks. map Some ks =
                map (map_of (kpis (merge_payload (s\<lparr>updatelist := [], last_update_time := d\<rparr>) p2)))
                  (first_seen (map name (nbpkpilist p2))) \<and>
              genpacket py (merge_payload (s\<lparr>updatelist := [], last_update_time := d\<rparr>) p2) ''UPDATE'' =
                Inr (''*'' @ protocol_version s @ '',UPDATE,'' @ format_6f py (timestamp p2) @ ''\<newline>''
                     @ concat (map (kpi_line (format_plain py)) ks) @ ''#\<newline>\<newline>'')"
    by (rule pending_after_emission(2))
next
  show "self (state_of (WifiPyNBP_try_request py so w)) = self w"
    and "connected (state_of (WifiPyNBP_try_request py so w)) = connected w"
    using request_self [of py so w] by simp_all
qed

theorem emission_bookkeeping_witness:
  \<open>connected socket_connected \<and> request_passes int_builtins (socket_ok 1000 1001)
   \<and> \<not> gate_closed (sock_time (socket_ok 1000 1001)) (self socket_connected)
   \<and> genpacket int_builtins (merge_payload (self socket_connected) meta) (packettype meta) =
       Inr ''@NAME:PyNBP\<newline>\<newline>''
   \<and> sock_sendall (socket_ok 1000 1001) = None
   \<and> updatelist (merge_payload (self socket_connected) meta) = [''RPM'', ''AFR'', ''OIL'']
   \<and> self (state_of (WifiPyNBP_step int_builtins (socket_ok 1000 1001) meta socket_connected)) =
       (merge_payload (self socket_connected) meta)\<lparr>updatelist := [], last_update_time := 1001\<rparr>
   \<and> updatelist (merge_payload
        ((merge_payload (self socket_connected) meta)\<lparr>updatelist := [], last_update_time := 1001\<rparr>)
        afr_only) = [''AFR'']
   \<and> genpacket int_builtins (merge_payload
        ((merge_payload (self socket_connected) meta)\<lparr>updatelist := [], last_update_time := 1001\<rparr>)
        afr_only) ''UPDATE'' = Inr ''*NBP1,UPDATE,16.000000\<newline>"AFR":152\<newline>#\<newline>\<newline>''\<close>
proof -
  have m: "merge_payload (self socket_connected) meta =
     \<lparr>device_name = ''PyNBP'', protocol_version = ''NBP1'', last_update_time = 0,
      packettime = 15,
      kpis = [(''RPM'', NbpKPI ''RPM'' ''rpm'' 4600), (''AFR'', NbpKPI ''AFR'' [] 147),
              (''OIL'', NbpKPI ''OIL'' ''psi'' 61)],
      updatelist = [''RPM'', ''AFR'', ''OIL''], min_update_interval = 0.2\<rparr>"
    by (simp add: socket_connected_def rpm_afr_state_eq meta_def merge_payload_def)
  have h: "(connected socket_connected \<or> (\<exists>a. sock_accept (socket_ok 1000 1001) = Inr a)) \<and>
      request_passes int_builtins (socket_ok 1000 1001) \<and>
      \<not> gate_closed (sock_time (socket_ok 1000 1001)) (self socket_connected) \<and>
      genpacket int_builtins (merge_payload (self socket_connected) meta) (packettype meta) =
        Inr ''@NAME:PyNBP\<newline>\<newline>'' \<and>
      sock_sendall (socket_ok 1000 1001) = None"
    unfolding m
    by (simp add: socket_connected_def socket_ok_def request_passes_def gate_closed_def
        rpm_afr_state_eq meta_def genpacket_METADATA)
  note T = emission_bookkeeping [where w = socket_connected and so = "socket_ok 1000 1001"
      and py = int_builtins and p = meta and pkt = "''@NAME:PyNBP\<newline>\<newline>''"
      and s = "merge_payload (self socket_connected) meta" and d = 1001 and ?p2.0 = afr_only]
  have emitted: "self (state_of (WifiPyNBP_step int_builtins (socket_ok 1000 1001) meta socket_connected)) =
       (merge_payload (self socket_connected) meta)\<lparr>updatelist := [], last_update_time := 1001\<rparr>"
    using mp [OF T [THEN conjunct2, THEN conjunct2, THEN conjunct1] h]
    by (simp add: socket_ok_def)
  have pending: "updatelist (merge_payload
        ((merge_payload (self socket_connected) meta)\<lparr>updatelist := [], last_update_time := 1001\<rparr>)
        afr_only) = [''AFR'']"
    using T [THEN conjunct2, THEN conjunct2, THEN conjunct2, THEN conjunct2, THEN conjunct2,
             THEN conjunct1]
    by (simp add: afr_only_def)
  have pkt: \<open>genpacket int_builtins (merge_payload
        ((merge_payload (self socket_connected) meta)\<lparr>updatelist := [], last_update_time := 1001\<rparr>)
        afr_only) ''UPDATE'' = Inr ''*NBP1,UPDATE,16.000000\<newline>"AFR":152\<newline>#\<newline>\<newline>''\<close>
    unfolding m
    by (simp add: afr_only_def merge_payload_def genpacket_def dict_getitem_def str_encode_def
        int_builtins_def str_int_more)
  have u: "updatelist (merge_payload (self socket_connected) meta) = [''RPM'', ''AFR'', ''OIL'']"
    unfolding m by simp
  from h emitted pending pkt u show ?thesis
    by (simp add: socket_connected_def)
qed

end
